theory Spec2Isabelle
  imports
    Complex_Main
    "HOL-Library.Char_ord"
    "HOL-Library.List_Lexorder"
    "HOL-Library.AList"
begin

section \<open>Strings as Python sees them\<close>

text \<open>
  Python \<open>str\<close> values are modelled as \<^typ>\<open>string\<close>; a character stands for a code
  point below 256 (ASCII and the Latin-1 supplement). The helpers below are the string
  methods the pipeline calls: \<open>strip\<close>, \<open>lower\<close>, the \<open>in\<close> substring test and
  \<open>startswith\<close>.
\<close>

definition is_digit :: "char \<Rightarrow> bool" where
  \<comment> \<open>the decimal digits; below 256 these are all that \<open>\d\<close> and \<open>float\<close> accept\<close>
  "is_digit c = (c \<in> set ''0123456789'')"

definition is_space :: "char \<Rightarrow> bool" where
  \<comment> \<open>\<open>str.isspace\<close> below 256: tab, LF, VT, FF, CR, FS, GS, RS, US, the blank, NEL
      (U+0085) and the no-break space (U+00A0).\<close>
  "is_space c = (c \<in> set [CHR 0x09, CHR 0x0A, CHR 0x0B, CHR 0x0C, CHR 0x0D,
                           CHR 0x1C, CHR 0x1D, CHR 0x1E, CHR 0x1F, CHR 0x20,
                           CHR 0x85, CHR 0xA0])"

definition strip :: "string \<Rightarrow> string" where
  \<comment> \<open>\<open>s.strip()\<close>\<close>
  "strip s = rev (dropWhile is_space (rev (dropWhile is_space s)))"

definition strip_chars :: "char \<Rightarrow> string \<Rightarrow> string" where
  \<comment> \<open>\<open>s.strip(c)\<close> for a one-character argument\<close>
  "strip_chars c s = rev (dropWhile (\<lambda>x. x = c) (rev (dropWhile (\<lambda>x. x = c) s)))"

definition upper_chars :: string where
  \<comment> \<open>the upper-case letters below 256: A to Z, and U+00C0 to U+00DE without the
      multiplication sign U+00D7\<close>
  "upper_chars = ''ABCDEFGHIJKLMNOPQRSTUVWXYZ'' @
     [CHR 0xC0, CHR 0xC1, CHR 0xC2, CHR 0xC3, CHR 0xC4, CHR 0xC5, CHR 0xC6, CHR 0xC7,
      CHR 0xC8, CHR 0xC9, CHR 0xCA, CHR 0xCB, CHR 0xCC, CHR 0xCD, CHR 0xCE, CHR 0xCF,
      CHR 0xD0, CHR 0xD1, CHR 0xD2, CHR 0xD3, CHR 0xD4, CHR 0xD5, CHR 0xD6,
      CHR 0xD8, CHR 0xD9, CHR 0xDA, CHR 0xDB, CHR 0xDC, CHR 0xDD, CHR 0xDE]"

definition lower_chars :: string where
  \<comment> \<open>their lower-case forms, in the same order\<close>
  "lower_chars = ''abcdefghijklmnopqrstuvwxyz'' @
     [CHR 0xE0, CHR 0xE1, CHR 0xE2, CHR 0xE3, CHR 0xE4, CHR 0xE5, CHR 0xE6, CHR 0xE7,
      CHR 0xE8, CHR 0xE9, CHR 0xEA, CHR 0xEB, CHR 0xEC, CHR 0xED, CHR 0xEE, CHR 0xEF,
      CHR 0xF0, CHR 0xF1, CHR 0xF2, CHR 0xF3, CHR 0xF4, CHR 0xF5, CHR 0xF6,
      CHR 0xF8, CHR 0xF9, CHR 0xFA, CHR 0xFB, CHR 0xFC, CHR 0xFD, CHR 0xFE]"

definition py_lower_char :: "char \<Rightarrow> char" where
  "py_lower_char c =
     (case map_of (zip upper_chars lower_chars) c of
        Some l \<Rightarrow> l
      | None \<Rightarrow> c)"

definition lower :: "string \<Rightarrow> string" where
  \<comment> \<open>\<open>s.lower()\<close>\<close>
  "lower s = map py_lower_char s"

fun startswith :: "string \<Rightarrow> string \<Rightarrow> bool" where
  \<comment> \<open>\<open>s.startswith(p)\<close>, written \<open>startswith p s\<close>\<close>
  "startswith [] s = True"
| "startswith (p # ps) [] = False"
| "startswith (p # ps) (c # cs) = (p = c \<and> startswith ps cs)"

fun contains :: "string \<Rightarrow> string \<Rightarrow> bool" where
  \<comment> \<open>\<open>k in s\<close> on strings, and XPath's \<open>contains(s, k)\<close>; written \<open>contains k s\<close>\<close>
  "contains k [] = (k = [])"
| "contains k (c # cs) = (startswith k (c # cs) \<or> contains k cs)"

definition truthy :: "string option \<Rightarrow> bool" where
  \<comment> \<open>Python truth of a value that is \<open>None\<close> or a \<open>str\<close>\<close>
  "truthy v = (case v of None \<Rightarrow> False | Some s \<Rightarrow> s \<noteq> [])"

datatype py_error =
    ValueError
  | XPathEvalError
  | XMLSyntaxError
  | XMLProcessingError string
  | ConcordanceError string
  | DatabaseError string
  | CardinalityViolation

section \<open>Value conversion\<close>

text \<open>
  A converted value is the 4-tuple \<open>(text_value, numeric_value, boolean_value,
  date_value)\<close> of the source, here a record whose fields are \<open>None\<close> where the source
  has \<open>None\<close>.

  A Python \<open>float\<close> is a binary64 number. Its arithmetic is not modelled: the value
  \<open>Float s\<close> stands for the number \<open>float(s)\<close> returns for the literal \<open>s\<close> (the
  nearest binary64 number, \<open>inf\<close> when the literal is too large), and keeps the literal
  in place of the number. \<open>decimal_value\<close> is the rational number the literal denotes
  before any rounding.
\<close>

datatype pyfloat = Float string

record slots =
  text_value :: "string option"
  numeric_value :: "pyfloat option"
  boolean_value :: "bool option"
  date_value :: "string option"

definition no_slots :: slots where
  "no_slots = \<lparr>text_value = None, numeric_value = None, boolean_value = None, date_value = None\<rparr>"

definition digit_val :: "char \<Rightarrow> nat" where
  "digit_val c = (case map_of (zip ''0123456789'' [0, 1, 2, 3, 4, 5, 6, 7, 8, 9]) c of
                    Some d \<Rightarrow> d | None \<Rightarrow> 0)"

definition dec_nat :: "string \<Rightarrow> nat" where
  "dec_nat s = foldl (\<lambda>acc c. 10 * acc + digit_val c) 0 s"

definition clean_float_literal :: "string \<Rightarrow> bool" where
  \<comment> \<open>the strings of digits, \<open>.\<close> and \<open>-\<close> that \<open>float\<close> accepts: an optional leading
      minus, then digits with at most one point and at least one digit\<close>
  "clean_float_literal s =
     (let body = (if s \<noteq> [] \<and> hd s = CHR ''-'' then tl s else s);
          ip = takeWhile is_digit body;
          rest = dropWhile is_digit body
      in case rest of
           [] \<Rightarrow> ip \<noteq> []
         | c # fp \<Rightarrow> c = CHR ''.'' \<and> list_all is_digit fp \<and> (ip \<noteq> [] \<or> fp \<noteq> []))"

definition float_of_clean :: "string \<Rightarrow> py_error + pyfloat" where
  \<comment> \<open>Python's \<open>float(s)\<close> for a string made of digits, \<open>.\<close> and \<open>-\<close> only, which is
      all the regular expression of the callers leaves; anything \<open>float\<close> does not
      accept raises \<open>ValueError\<close>.\<close>
  "float_of_clean s = (if clean_float_literal s then Inr (Float s) else Inl ValueError)"

definition decimal_value :: "string \<Rightarrow> rat" where
  \<comment> \<open>the number an accepted literal denotes, before rounding to binary64\<close>
  "decimal_value s =
     (let neg = (s \<noteq> [] \<and> hd s = CHR ''-'');
          body = (if neg then tl s else s);
          ip = takeWhile is_digit body;
          fp = drop 1 (dropWhile is_digit body);
          sgn = (if neg then - 1 else 1 :: rat)
      in sgn * (of_nat (dec_nat ip) + of_nat (dec_nat fp) / 10 ^ length fp))"

definition numeric_chars :: "string \<Rightarrow> string" where
  \<comment> \<open>\<open>re.sub(r'[^\d.-]', '', value)\<close>, the same as \<open>re.sub(r'[^0-9.-]', '', value)\<close>
      below 256\<close>
  "numeric_chars v = filter (\<lambda>c. is_digit c \<or> c = CHR ''.'' \<or> c = CHR ''-'') v"

definition tr_convert_value :: "string \<Rightarrow> string \<Rightarrow> py_error + slots" where
  \<comment> \<open>\<open>IRS990Transformer._convert_value\<close> (etl/transformer.py). The result is a sum so
      that an exception leaving the method would be a value \<open>Inl\<close>; the \<open>try\<close> catches
      \<open>ValueError\<close> only.\<close>
  "tr_convert_value v data_type =
     (if data_type = [] \<or> data_type = ''text'' then Inr (no_slots\<lparr>text_value := Some v\<rparr>)
      else if data_type = ''numeric'' then
        (case float_of_clean (numeric_chars v) of
           Inr x \<Rightarrow> Inr (no_slots\<lparr>numeric_value := Some x\<rparr>)
         | Inl ValueError \<Rightarrow> Inr (no_slots\<lparr>text_value := Some v\<rparr>)
         | Inl e \<Rightarrow> Inl e)
      else if data_type = ''checkbox'' \<or> data_type = ''boolean'' then
        Inr (no_slots\<lparr>boolean_value :=
               Some (lower v \<in> set [''true'', ''yes'', ''1'', ''t'', ''y'', ''x''])\<rparr>)
      else if data_type = ''date'' then Inr (no_slots\<lparr>date_value := Some v\<rparr>)
      else Inr (no_slots\<lparr>text_value := Some v\<rparr>))"

definition convert_value :: "(pyfloat \<Rightarrow> string) \<Rightarrow> string option \<Rightarrow> string \<Rightarrow> slots" where
  \<comment> \<open>\<open>convert_value\<close> of repeating_groups/utils.py, the converter of the stand-alone
      repeating-group processor; the transformer does not call it. \<open>float_repr\<close> is
      Python's \<open>str\<close> on a float, a parameter.\<close>
  "convert_value float_repr value data_type =
     (case value of
        None \<Rightarrow> no_slots
      | Some v \<Rightarrow>
          if data_type = ''number'' then
            (case float_of_clean (numeric_chars v) of
               Inr x \<Rightarrow> no_slots\<lparr>numeric_value := Some x, text_value := Some (float_repr x)\<rparr>
             | Inl _ \<Rightarrow> no_slots\<lparr>text_value := Some v\<rparr>)
          else if data_type = ''boolean'' then
            (if lower v \<in> set [''true'', ''yes'', ''1'', ''t'', ''y'']
             then no_slots\<lparr>boolean_value := Some True, text_value := Some ''true''\<rparr>
             else if lower v \<in> set [''false'', ''no'', ''0'', ''f'', ''n'']
             then no_slots\<lparr>boolean_value := Some False, text_value := Some ''false''\<rparr>
             else no_slots\<lparr>text_value := Some v\<rparr>)
          else if data_type = ''date'' then no_slots\<lparr>date_value := Some v, text_value := Some v\<rparr>
          else no_slots\<lparr>text_value := Some v\<rparr>)"

definition populated :: "slots \<Rightarrow> nat" where
  \<comment> \<open>how many of the four typed slots are not \<open>None\<close>\<close>
  "populated r =
     (if text_value r = None then 0 else 1) + (if numeric_value r = None then 0 else 1) +
     (if boolean_value r = None then 0 else 1) + (if date_value r = None then 0 else 1)"

section \<open>Python values and dictionaries\<close>

text \<open>
  The dictionaries the pipeline passes around (metadata, organization) hold strings,
  integers and \<open>None\<close>. A dictionary is an association list in insertion order;
  \<open>d.get(k)\<close> gives \<open>None\<close> for a missing key and \<open>d.get(k, v)\<close> gives \<open>v\<close>.
\<close>

datatype pyval = PNone | PStr string | PInt int

type_synonym pydict = "(string \<times> pyval) list"

definition dget :: "pydict \<Rightarrow> string \<Rightarrow> pyval" where
  "dget d k = (case map_of d k of Some v \<Rightarrow> v | None \<Rightarrow> PNone)"

definition dget_default :: "pydict \<Rightarrow> string \<Rightarrow> pyval \<Rightarrow> pyval" where
  "dget_default d k v0 = (case map_of d k of Some v \<Rightarrow> v | None \<Rightarrow> v0)"

fun falsy :: "pyval \<Rightarrow> bool" where
  \<comment> \<open>\<open>not v\<close>\<close>
  "falsy PNone = True"
| "falsy (PStr s) = (s = [])"
| "falsy (PInt i) = (i = 0)"

definition opt_str :: "string option \<Rightarrow> pyval" where
  "opt_str v = (case v of None \<Rightarrow> PNone | Some s \<Rightarrow> PStr s)"

definition opt_int :: "int option \<Rightarrow> pyval" where
  "opt_int v = (case v of None \<Rightarrow> PNone | Some i \<Rightarrow> PInt i)"

definition py_int :: "string \<Rightarrow> py_error + int" where
  \<comment> \<open>\<open>int(s)\<close> on ASCII text: surrounding blanks are dropped, one sign is allowed, and
      the digits may be separated by single underscores.\<close>
  "py_int s =
     (let t = strip s;
          neg = (t \<noteq> [] \<and> hd t = CHR ''-'');
          body = (if t \<noteq> [] \<and> (hd t = CHR ''-'' \<or> hd t = CHR ''+'') then tl t else t);
          ds = filter is_digit body
      in if body \<noteq> [] \<and> is_digit (hd body) \<and> is_digit (last body) \<and>
            list_all (\<lambda>c. is_digit c \<or> c = CHR ''_'') body \<and> \<not> contains ''__'' body
         then Inr (if neg then - int (dec_nat ds) else int (dec_nat ds))
         else Inl ValueError)"

section \<open>Documents and the XPath patterns of the source\<close>

text \<open>
  A parsed document is a tree of elements. An element has an optional namespace URI, a
  local name, attributes (keyed as lxml keys them, \<open>{uri}name\<close> when qualified), the text
  before its first child (\<open>.text\<close>, \<open>None\<close> when there is none) and its child elements.
  Comments and processing instructions are not modelled. The document also carries the
  prefix map of its root element (\<open>root.nsmap\<close>; the key \<open>None\<close> is the default
  namespace).
\<close>

datatype xml =
  Element (tag_ns: "string option") (localname: string) (attrib: "(string \<times> string) list")
    (elem_text: "string option") (children: "xml list")

record document =
  doc_nsmap :: "(string option \<times> string) list"
  doc_root :: xml

type_synonym namespaces = "(string \<times> string) list"

text \<open>
  A node is an element together with where it sits: its position (the child indices from
  the root) and its ancestors, nearest first. \<open>nodes_of\<close> lists the nodes of a subtree in
  document order, which is the order lxml returns XPath results in.
\<close>

type_synonym node = "nat list \<times> xml list \<times> xml"

fun nodes_of :: "nat list \<Rightarrow> xml list \<Rightarrow> xml \<Rightarrow> node list"
  and nodes_of_list :: "nat list \<Rightarrow> xml list \<Rightarrow> nat \<Rightarrow> xml list \<Rightarrow> node list" where
  "nodes_of pos anc (Element u n a t cs) =
     (pos, anc, Element u n a t cs) # nodes_of_list pos (Element u n a t cs # anc) 0 cs"
| "nodes_of_list pos anc i [] = []"
| "nodes_of_list pos anc i (c # cs) =
     nodes_of (pos @ [i]) anc c @ nodes_of_list pos anc (Suc i) cs"

definition doc_nodes :: "document \<Rightarrow> node list" where
  "doc_nodes doc = nodes_of [] [] (doc_root doc)"

definition node_elem :: "node \<Rightarrow> xml" where
  "node_elem n = snd (snd n)"

definition node_pos :: "node \<Rightarrow> nat list" where
  "node_pos n = fst n"

definition node_anc :: "node \<Rightarrow> xml list" where
  "node_anc n = fst (snd n)"

text \<open>
  The XPath expressions of the source are all of one shape: \<open>//\<close> (from the document) or
  \<open>.//\<close> (below the context element), then name tests separated by \<open>/\<close>. A name test is
  one of the five forms below. An expression that uses a prefix the namespace dictionary
  does not bind makes lxml raise \<open>XPathEvalError\<close>.
\<close>

datatype name_test =
    AnyLocal string                 \<comment> \<open>\<open>*[local-name()='X']\<close>\<close>
  | AnyContains string              \<comment> \<open>\<open>*[contains(local-name(), 'X')]\<close>\<close>
  | Prefixed string string          \<comment> \<open>\<open>p:X\<close>\<close>
  | PrefixedContains string string  \<comment> \<open>\<open>p:*[contains(local-name(), 'X')]\<close>\<close>
  | Plain string                    \<comment> \<open>\<open>X\<close>: an element named X in no namespace\<close>

datatype xpath =
    FromDoc "name_test list"        \<comment> \<open>\<open>//t1/t2/...\<close>\<close>
  | Below "name_test list"          \<comment> \<open>\<open>.//t1/t2/...\<close>\<close>

fun test_prefix :: "name_test \<Rightarrow> string option" where
  "test_prefix (Prefixed p n) = Some p"
| "test_prefix (PrefixedContains p n) = Some p"
| "test_prefix _ = None"

fun matches_test :: "namespaces \<Rightarrow> name_test \<Rightarrow> xml \<Rightarrow> bool" where
  "matches_test nss (AnyLocal n) e = (localname e = n)"
| "matches_test nss (AnyContains k) e = contains k (localname e)"
| "matches_test nss (Prefixed p n) e = (localname e = n \<and> tag_ns e \<noteq> None \<and> tag_ns e = map_of nss p)"
| "matches_test nss (PrefixedContains p k) e =
     (contains k (localname e) \<and> tag_ns e \<noteq> None \<and> tag_ns e = map_of nss p)"
| "matches_test nss (Plain n) e = (localname e = n \<and> tag_ns e = None)"

fun matches_chain :: "namespaces \<Rightarrow> name_test list \<Rightarrow> xml list \<Rightarrow> bool" where
  \<comment> \<open>the tests last first, against the element and then its ancestors\<close>
  "matches_chain nss [] es = True"
| "matches_chain nss (t # ts) [] = False"
| "matches_chain nss (t # ts) (e # es) = (matches_test nss t e \<and> matches_chain nss ts es)"

definition prefixes_bound :: "namespaces \<Rightarrow> name_test list \<Rightarrow> bool" where
  "prefixes_bound nss ts =
     list_all (\<lambda>t. case test_prefix t of None \<Rightarrow> True | Some p \<Rightarrow> map_of nss p \<noteq> None) ts"

definition select_nodes :: "namespaces \<Rightarrow> name_test list \<Rightarrow> node list \<Rightarrow> node list" where
  "select_nodes nss ts ns =
     filter (\<lambda>n. ts \<noteq> [] \<and> matches_chain nss (rev ts) (node_elem n # node_anc n)) ns"

fun xpath_eval :: "document \<Rightarrow> node \<Rightarrow> namespaces \<Rightarrow> xpath \<Rightarrow> py_error + node list" where
  \<comment> \<open>\<open>context.xpath(expr, namespaces=nss)\<close>; an absolute expression looks at the whole
      document whatever the context element is.\<close>
  "xpath_eval doc ctx nss (FromDoc ts) =
     (if prefixes_bound nss ts then Inr (select_nodes nss ts (doc_nodes doc))
      else Inl XPathEvalError)"
| "xpath_eval doc ctx nss (Below ts) =
     (if prefixes_bound nss ts
      then Inr (select_nodes nss ts
                  (map (\<lambda>n. (node_pos n, take (length (node_anc n) - length (node_anc ctx)) (node_anc n),
                             node_elem n))
                     (tl (nodes_of (node_pos ctx) (node_anc ctx) (node_elem ctx)))))
      else Inl XPathEvalError)"

definition root_node :: "document \<Rightarrow> node" where
  "root_node doc = ([], [], doc_root doc)"

fun get_text :: "document \<Rightarrow> namespaces \<Rightarrow> xpath list \<Rightarrow> string option" where
  \<comment> \<open>the local helper \<open>get_text(patterns)\<close> of the extraction methods: the stripped text
      of the first element of the first pattern whose first element has text.\<close>
  "get_text doc nss [] = None"
| "get_text doc nss (p # ps) =
     (case xpath_eval doc (root_node doc) nss p of
        Inl _ \<Rightarrow> get_text doc nss ps
      | Inr [] \<Rightarrow> get_text doc nss ps
      | Inr (n # _) \<Rightarrow>
          (if truthy (elem_text (node_elem n)) then Some (strip (the (elem_text (node_elem n))))
           else get_text doc nss ps))"

section \<open>The transformer: metadata and organization\<close>

definition local_pat :: "string \<Rightarrow> xpath" where
  \<comment> \<open>\<open>//*[local-name()='X']\<close>\<close>
  "local_pat n = FromDoc [AnyLocal n]"

definition header_pat :: "string \<Rightarrow> string list \<Rightarrow> xpath" where
  \<comment> \<open>\<open>//p:A/p:B/...\<close>\<close>
  "header_pat p names = FromDoc (map (Prefixed p) names)"

definition tr_namespaces :: "document \<Rightarrow> namespaces" where
  \<comment> \<open>the namespace dictionary \<open>_process_xml_file\<close> builds from \<open>root.nsmap\<close>: the
      prefixed bindings, the default namespace under \<open>default\<close>, and again under \<open>irs\<close>.\<close>
  "tr_namespaces doc =
     (let ns0 = foldl (\<lambda>d (p, u). case p of None \<Rightarrow> d | Some q \<Rightarrow> AList.update q u d) []
                  (doc_nsmap doc);
          ns1 = (case map_of (doc_nsmap doc) None of
                   None \<Rightarrow> ns0 | Some u \<Rightarrow> AList.update ''default'' u ns0)
      in case map_of ns1 ''default'' of
           None \<Rightarrow> ns1 | Some u \<Rightarrow> AList.update ''irs'' u ns1)"

definition ein_patterns :: "xpath list" where
  "ein_patterns =
     [local_pat ''EIN'',
      header_pat ''irs'' [''ReturnHeader'', ''Filer'', ''EIN''],
      header_pat ''default'' [''ReturnHeader'', ''Filer'', ''EIN'']]"

definition tax_period_patterns :: "xpath list" where
  "tax_period_patterns =
     [local_pat ''TaxPeriodEndDt'',
      header_pat ''irs'' [''ReturnHeader'', ''TaxPeriodEndDt''],
      header_pat ''default'' [''ReturnHeader'', ''TaxPeriodEndDt'']]"

definition form_type_patterns :: "xpath list" where
  "form_type_patterns =
     [local_pat ''ReturnTypeCd'',
      header_pat ''irs'' [''ReturnHeader'', ''ReturnTypeCd''],
      header_pat ''default'' [''ReturnHeader'', ''ReturnTypeCd'']]"

definition submission_patterns :: "xpath list" where
  "submission_patterns =
     [local_pat ''ReturnTs'',
      header_pat ''irs'' [''ReturnHeader'', ''ReturnTs''],
      header_pat ''default'' [''ReturnHeader'', ''ReturnTs'']]"

fun first_truthy :: "string option list \<Rightarrow> string option" where
  \<comment> \<open>a \<open>for\<close> loop that stops at the first value that is true\<close>
  "first_truthy [] = None"
| "first_truthy (v # vs) = (if truthy v then v else first_truthy vs)"

definition tr_form_version :: "xml \<Rightarrow> namespaces \<Rightarrow> string" where
  \<comment> \<open>the \<open>returnVersion\<close> attribute, plain or under one of the namespaces, else
      \<open>Unknown\<close>. When the loop ends without a hit, \<open>form_version\<close> holds the last value
      read, which is not true, so \<open>Unknown\<close> is taken.\<close>
  "tr_form_version r nss =
     (let v0 = map_of (attrib r) ''returnVersion'';
          v1 = (if truthy v0 then v0
                else first_truthy
                       (map (\<lambda>(p, u). map_of (attrib r) (''{'' @ u @ ''}returnVersion'')) nss))
      in if truthy v1 then the v1 else ''Unknown'')"

definition tr_tax_year :: "string \<Rightarrow> int option" where
  \<comment> \<open>\<open>int(tax_period.split('-')[0])\<close>, \<open>None\<close> when that raises\<close>
  "tr_tax_year tax_period =
     (case py_int (takeWhile (\<lambda>c. c \<noteq> CHR ''-'') tax_period) of
        Inr y \<Rightarrow> Some y | Inl _ \<Rightarrow> None)"

definition make_filing_id :: "string \<Rightarrow> string \<Rightarrow> string \<Rightarrow> string" where
  \<comment> \<open>the f-string \<open>{ein}_{tax_period}_{form_type}\<close>\<close>
  "make_filing_id e p f = e @ ''_'' @ p @ ''_'' @ f"

definition tr_extract_metadata :: "document \<Rightarrow> namespaces \<Rightarrow> string \<Rightarrow> py_error + pydict" where
  \<comment> \<open>\<open>IRS990Transformer._extract_metadata\<close>\<close>
  "tr_extract_metadata doc nss file_name =
     (let ein = get_text doc nss ein_patterns in
      if \<not> truthy ein then Inl (XMLProcessingError ''EIN not found in XML'')
      else
        let tax_period = get_text doc nss tax_period_patterns in
        if \<not> truthy tax_period then Inl (XMLProcessingError ''Tax period not found in XML'')
        else
          let form_type = get_text doc nss form_type_patterns in
          if \<not> truthy form_type then Inl (XMLProcessingError ''Form type not found in XML'')
          else
            Inr [(''filing_id'', PStr (make_filing_id (the ein) (the tax_period) (the form_type))),
                 (''ein'', PStr (the ein)),
                 (''tax_period'', PStr (the tax_period)),
                 (''form_type'', PStr (the form_type)),
                 (''form_version'', PStr (tr_form_version (doc_root doc) nss)),
                 (''tax_year'', opt_int (tr_tax_year (the tax_period))),
                 (''submission_date'', opt_str (get_text doc nss submission_patterns)),
                 (''object_id'', PStr file_name)])"

definition child_pat :: "string \<Rightarrow> string \<Rightarrow> xpath" where
  \<comment> \<open>\<open>//*[local-name()='A']/*[local-name()='B']\<close>\<close>
  "child_pat a b = FromDoc [AnyLocal a, AnyLocal b]"

definition org_fields :: "document \<Rightarrow> namespaces \<Rightarrow> (string \<times> string option) list" where
  \<comment> \<open>what both \<open>_extract_organization_info\<close> methods read, in their order\<close>
  "org_fields doc nss =
     [(''name'', get_text doc nss
         [local_pat ''BusinessNameLine1Txt'',
          header_pat ''irs'' [''ReturnHeader'', ''Filer'', ''Name'', ''BusinessNameLine1Txt''],
          header_pat ''default'' [''ReturnHeader'', ''Filer'', ''Name'', ''BusinessNameLine1Txt''],
          header_pat ''irs'' [''ReturnHeader'', ''Filer'', ''BusinessName'', ''BusinessNameLine1Txt'']]),
      (''address_line1'', get_text doc nss
         [child_pat ''USAddress'' ''AddressLine1Txt'', child_pat ''ForeignAddress'' ''AddressLine1Txt'']),
      (''address_line2'', get_text doc nss
         [child_pat ''USAddress'' ''AddressLine2Txt'', child_pat ''ForeignAddress'' ''AddressLine2Txt'']),
      (''city'', get_text doc nss
         [child_pat ''USAddress'' ''CityNm'', child_pat ''ForeignAddress'' ''CityNm'']),
      (''state'', get_text doc nss [child_pat ''USAddress'' ''StateAbbreviationCd'']),
      (''zip'', get_text doc nss [child_pat ''USAddress'' ''ZIPCd''])]"

definition country_patterns :: "xpath list" where
  "country_patterns = [child_pat ''ForeignAddress'' ''CountryCd'']"

definition extract_country :: "document \<Rightarrow> namespaces \<Rightarrow> string option" where
  \<comment> \<open>\<open>country = get_text([...]); if not country: country = 'US'\<close>\<close>
  "extract_country doc nss =
     (let country = get_text doc nss country_patterns
      in if \<not> truthy country then Some ''US'' else country)"

definition tr_extract_organization_info :: "document \<Rightarrow> namespaces \<Rightarrow> string \<Rightarrow> pydict" where
  \<comment> \<open>\<open>IRS990Transformer._extract_organization_info\<close>\<close>
  "tr_extract_organization_info doc nss ein =
     [(''ein'', PStr ein)] @ map (\<lambda>(k, v). (k, opt_str v)) (org_fields doc nss) @
     [(''country'', opt_str (extract_country doc nss)),
      (''website'', opt_str (get_text doc nss [local_pat ''WebsiteAddressTxt'']))]"

section \<open>The stand-alone parser (xml/parser.py)\<close>

definition NAMESPACES :: namespaces where
  \<comment> \<open>core/constants.py\<close>
  "NAMESPACES = [(''irs'', ''http://www.irs.gov/efile''),
                 (''xsi'', ''http://www.w3.org/2001/XMLSchema-instance'')]"

definition parser_init :: "namespaces \<Rightarrow> namespaces" where
  \<comment> \<open>\<open>self.namespaces = namespaces or NAMESPACES\<close>\<close>
  "parser_init nss = (if nss = [] then NAMESPACES else nss)"

definition parser_ein_patterns :: "xpath list" where
  "parser_ein_patterns = ein_patterns @ [FromDoc [Plain ''ein''], FromDoc [Plain ''EIN'']]"

definition parser_tax_period_patterns :: "xpath list" where
  "parser_tax_period_patterns =
     tax_period_patterns @ [FromDoc [Plain ''taxPeriodEndDate''], FromDoc [Plain ''TaxPeriodEndDt'']]"

definition parser_form_type_patterns :: "xpath list" where
  "parser_form_type_patterns =
     form_type_patterns @ [FromDoc [Plain ''returnType''], FromDoc [Plain ''ReturnTypeCd'']]"

definition parser_submission_patterns :: "xpath list" where
  "parser_submission_patterns =
     submission_patterns @ [FromDoc [Plain ''submissionDate''], FromDoc [Plain ''ReturnTs'']]"

definition parser_namespaces :: "namespaces \<Rightarrow> document \<Rightarrow> namespaces" where
  \<comment> \<open>\<open>if not self.namespaces:\<close> take them from the document\<close>
  "parser_namespaces self_namespaces doc =
     (if self_namespaces = [] then tr_namespaces doc else self_namespaces)"

definition parser_extract_metadata :: "namespaces \<Rightarrow> document \<Rightarrow> pydict" where
  \<comment> \<open>\<open>XMLParser._extract_metadata\<close>: nothing is required here, and \<open>filing_id\<close> is set
      only when its three parts were found.\<close>
  "parser_extract_metadata self_namespaces doc =
     (let nss = parser_namespaces self_namespaces doc;
          ein = get_text doc nss parser_ein_patterns;
          tax_period = get_text doc nss parser_tax_period_patterns;
          form_type = get_text doc nss parser_form_type_patterns;
          v0 = map_of (attrib (doc_root doc)) ''returnVersion'';
          v1 = (if truthy v0 then v0
                else first_truthy
                       (map (\<lambda>(p, u). map_of (attrib (doc_root doc)) (''{'' @ u @ ''}returnVersion''))
                          (doc_nsmap doc)));
          submission = get_text doc nss parser_submission_patterns
      in [(''ein'', opt_str ein), (''tax_period'', opt_str tax_period)] @
         (if truthy tax_period
          then [(''tax_year'', PStr (takeWhile (\<lambda>c. c \<noteq> CHR ''-'') (the tax_period)))] else []) @
         [(''form_type'', opt_str form_type),
          (''form_version'', PStr (if truthy v1 then the v1 else ''Unknown'')),
          (''submission_date'', opt_str submission)] @
         (if truthy ein \<and> truthy tax_period \<and> truthy form_type
          then [(''filing_id'', PStr (make_filing_id (the ein) (the tax_period) (the form_type)))]
          else []))"

definition parser_extract_organization_info :: "namespaces \<Rightarrow> document \<Rightarrow> pydict" where
  \<comment> \<open>\<open>XMLParser._extract_organization_info\<close>; the zip code is stored under \<open>zip_code\<close>\<close>
  "parser_extract_organization_info nss doc =
     map (\<lambda>(k, v). (if k = ''zip'' then ''zip_code'' else k, opt_str v)) (org_fields doc nss) @
     [(''country'', opt_str (extract_country doc nss)),
      (''website'', opt_str (get_text doc nss [local_pat ''WebsiteAddressTxt'']))]"

section \<open>The relational store\<close>

text \<open>
  The store is the external database. A table is the list of its rows, in insertion
  order, and each statement of the loader is a function on tables; keys are not
  unique by construction, so that what the loader keeps unique is proved and not assumed.
  \<open>NULL\<close> is \<open>PNone\<close> (or \<open>None\<close> in a typed slot). The timestamp columns are left out.
  In one statement \<open>INSERT ... VALUES rows ON CONFLICT (key) DO UPDATE SET col =
  EXCLUDED.col\<close> a proposed row replaces the value columns of the stored row with its
  key, or is appended when no stored row has that key; PostgreSQL refuses the statement
  (\<open>CardinalityViolation\<close>: the command cannot affect a row a second time) when two of its
  proposed rows have the same key. \<open>execute_values\<close> of psycopg2 sends one such statement
  for every page of 100 rows of its argument. Foreign keys and column types are not
  modelled.
\<close>

record org_row =
  o_ein :: pyval
  o_name :: pyval
  o_address_line1 :: pyval
  o_address_line2 :: pyval
  o_city :: pyval
  o_state :: pyval
  o_zip :: pyval
  o_country :: pyval
  o_website :: pyval

record filing_row =
  f_filing_id :: pyval
  f_object_id :: pyval
  f_ein :: pyval
  f_tax_period :: pyval
  f_form_type :: pyval
  f_form_version :: pyval
  f_tax_year :: pyval
  f_submission_date :: pyval

record filing_value = slots +
  fv_filing_id :: string
  fv_field_id :: nat

record group_value = slots +
  gv_group_id :: nat
  gv_field_id :: nat

record group =
  group_id :: nat
  filing_id :: string
  parent_group_id :: "nat option"
  group_name :: "string option"
  group_xpath :: "string option"

record store =
  organizations :: "org_row list"
  filings :: "filing_row list"
  filing_values :: "filing_value list"
  repeating_groups :: "group list"
  repeating_group_values :: "group_value list"
  xml_metadata :: "(pyval \<times> string) list"
  next_group_id :: nat

record processed_data =
  pd_metadata :: pydict
  pd_organization :: pydict
  pd_filing_values :: "filing_value list"
  pd_repeating_groups :: "group list"
  pd_group_values :: "group_value list"
  pd_xml_hash :: "string option"

definition coalesce :: "pyval \<Rightarrow> pyval \<Rightarrow> pyval" where
  \<comment> \<open>SQL \<open>COALESCE(new, old)\<close>\<close>
  "coalesce new old = (if new = PNone then old else new)"

section \<open>The loader (etl/loader.py)\<close>

definition load_organization :: "store \<Rightarrow> pydict \<Rightarrow> py_error + store" where
  \<comment> \<open>\<open>PostgreSQLLoader._load_organization\<close>\<close>
  "load_organization st organization =
     (let ein = dget organization ''ein'' in
      if falsy ein then Inl (DatabaseError ''Missing EIN in organization data'')
      else if \<exists>r \<in> set (organizations st). o_ein r = ein then
        Inr (st\<lparr>organizations :=
               map (\<lambda>r. if o_ein r = ein then
                      r\<lparr>o_name := coalesce (dget organization ''name'') (o_name r),
                        o_address_line1 := coalesce (dget organization ''address_line1'') (o_address_line1 r),
                        o_address_line2 := coalesce (dget organization ''address_line2'') (o_address_line2 r),
                        o_city := coalesce (dget organization ''city'') (o_city r),
                        o_state := coalesce (dget organization ''state'') (o_state r),
                        o_zip := coalesce (dget organization ''zip'') (o_zip r),
                        o_country := coalesce (dget organization ''country'') (o_country r),
                        o_website := coalesce (dget organization ''website'') (o_website r)\<rparr>
                    else r) (organizations st)\<rparr>)
      else
        Inr (st\<lparr>organizations := organizations st @
               [\<lparr>o_ein = ein,
                 o_name = dget organization ''name'',
                 o_address_line1 = dget organization ''address_line1'',
                 o_address_line2 = dget organization ''address_line2'',
                 o_city = dget organization ''city'',
                 o_state = dget organization ''state'',
                 o_zip = dget organization ''zip'',
                 o_country = dget_default organization ''country'' (PStr ''US''),
                 o_website = dget organization ''website''\<rparr>]\<rparr>))"

definition load_filing_record :: "store \<Rightarrow> pydict \<Rightarrow> py_error + store" where
  \<comment> \<open>\<open>PostgreSQLLoader._load_filing_record\<close>\<close>
  "load_filing_record st metadata =
     (let fid = dget metadata ''filing_id''; ein = dget metadata ''ein'' in
      if falsy fid \<or> falsy ein then Inl (DatabaseError ''Missing filing_id or EIN in metadata'')
      else if \<exists>r \<in> set (filings st). f_filing_id r = fid then
        Inr (st\<lparr>filings :=
               map (\<lambda>r. if f_filing_id r = fid then
                      r\<lparr>f_object_id := dget metadata ''object_id'',
                        f_form_version := dget metadata ''form_version'',
                        f_tax_year := dget metadata ''tax_year''\<rparr>
                    else r) (filings st)\<rparr>)
      else
        Inr (st\<lparr>filings := filings st @
               [\<lparr>f_filing_id = fid,
                 f_object_id = dget metadata ''object_id'',
                 f_ein = ein,
                 f_tax_period = dget metadata ''tax_period'',
                 f_form_type = dget metadata ''form_type'',
                 f_form_version = dget metadata ''form_version'',
                 f_tax_year = dget metadata ''tax_year'',
                 f_submission_date = dget metadata ''submission_date''\<rparr>]\<rparr>))"

function chunks :: "nat \<Rightarrow> 'a list \<Rightarrow> 'a list list" where
  "chunks n xs = (if n = 0 \<or> xs = [] then [] else take n xs # chunks n (drop n xs))"
  by pat_completeness auto
termination
  by (relation "measure (\<lambda>(n, xs). length xs)") auto

declare chunks.simps [simp del]

definition batches :: "int \<Rightarrow> 'a list \<Rightarrow> py_error + 'a list list" where
  \<comment> \<open>\<open>[xs[i:i+batch_size] for i in range(0, len(xs), batch_size)]\<close>: a zero step makes
      \<open>range\<close> raise \<open>ValueError\<close>, a negative one gives no batch at all.\<close>
  "batches batch_size xs =
     (if batch_size = 0 then Inl ValueError
      else if batch_size < 0 then Inr []
      else Inr (chunks (nat batch_size) xs))"

definition fv_key :: "filing_value \<Rightarrow> string \<times> nat" where
  "fv_key v = (fv_filing_id v, fv_field_id v)"

definition gv_key :: "group_value \<Rightarrow> nat \<times> nat" where
  "gv_key v = (gv_group_id v, gv_field_id v)"

definition upsert_filing_value :: "filing_value list \<Rightarrow> filing_value \<Rightarrow> filing_value list" where
  \<comment> \<open>what one proposed row of \<open>INSERT INTO filing_values ... ON CONFLICT (filing_id,
      field_id) DO UPDATE SET\<close> the four value columns does to the table\<close>
  "upsert_filing_value rows v =
     (if \<exists>r \<in> set rows. fv_key r = fv_key v
      then map (\<lambda>r. if fv_key r = fv_key v
                     then r\<lparr>text_value := text_value v, numeric_value := numeric_value v,
                            boolean_value := boolean_value v, date_value := date_value v\<rparr>
                     else r) rows
      else rows @ [v])"

definition upsert_group_value :: "group_value list \<Rightarrow> group_value \<Rightarrow> group_value list" where
  \<comment> \<open>what one proposed row of \<open>INSERT INTO repeating_group_values ... ON CONFLICT
      (group_id, field_id) DO UPDATE SET\<close> the four value columns does to the table\<close>
  "upsert_group_value rows v =
     (if \<exists>r \<in> set rows. gv_key r = gv_key v
      then map (\<lambda>r. if gv_key r = gv_key v
                     then r\<lparr>text_value := text_value v, numeric_value := numeric_value v,
                            boolean_value := boolean_value v, date_value := date_value v\<rparr>
                     else r) rows
      else rows @ [v])"

fun fold_err :: "('s \<Rightarrow> 'a \<Rightarrow> py_error + 's) \<Rightarrow> 's \<Rightarrow> 'a list \<Rightarrow> py_error + 's" where
  \<comment> \<open>a \<open>for\<close> loop whose body may raise: the first exception leaves the loop\<close>
  "fold_err f s [] = Inr s"
| "fold_err f s (x # xs) = (case f s x of Inl e \<Rightarrow> Inl e | Inr s' \<Rightarrow> fold_err f s' xs)"

definition page_size :: nat where
  \<comment> \<open>the default \<open>page_size\<close> of \<open>psycopg2.extras.execute_values\<close>, which the loader
      does not change\<close>
  "page_size = 100"

definition insert_filing_values :: "store \<Rightarrow> filing_value list \<Rightarrow> py_error + store" where
  \<comment> \<open>one statement \<open>INSERT INTO filing_values ... VALUES page ON CONFLICT (filing_id,
      field_id) DO UPDATE SET ...\<close>\<close>
  "insert_filing_values st page =
     (if distinct (map fv_key page)
      then Inr (st\<lparr>filing_values := foldl upsert_filing_value (filing_values st) page\<rparr>)
      else Inl CardinalityViolation)"

definition insert_group_values :: "store \<Rightarrow> group_value list \<Rightarrow> py_error + store" where
  \<comment> \<open>one statement \<open>INSERT INTO repeating_group_values ... VALUES page ON CONFLICT
      (group_id, field_id) DO UPDATE SET ...\<close>\<close>
  "insert_group_values st page =
     (if distinct (map gv_key page)
      then Inr (st\<lparr>repeating_group_values :=
                    foldl upsert_group_value (repeating_group_values st) page\<rparr>)
      else Inl CardinalityViolation)"

definition execute_values :: "('s \<Rightarrow> 'a list \<Rightarrow> py_error + 's) \<Rightarrow> 's \<Rightarrow> 'a list \<Rightarrow> py_error + 's" where
  \<comment> \<open>\<open>execute_values(cursor, sql, argslist)\<close>: the statement is run once for every page\<close>
  "execute_values statement st argslist = fold_err statement st (chunks page_size argslist)"

definition load_filing_values :: "int \<Rightarrow> store \<Rightarrow> filing_value list \<Rightarrow> py_error + store" where
  \<comment> \<open>\<open>PostgreSQLLoader._load_filing_values\<close>\<close>
  "load_filing_values batch_size st fvs =
     (if fvs = [] then Inr st
      else case batches batch_size fvs of
             Inl e \<Rightarrow> Inl e
           | Inr bs \<Rightarrow> fold_err (execute_values insert_filing_values) st bs)"

definition insert_group :: "store \<times> (nat \<times> nat) list \<Rightarrow> group \<Rightarrow> store \<times> (nat \<times> nat) list" where
  \<comment> \<open>one turn of the loop over the groups: the row is inserted with the next value of
      the \<open>group_id\<close> sequence, and the map from the client-side id to it is extended.\<close>
  "insert_group sm g =
     (let st = fst sm; db_group_id = next_group_id st in
      (st\<lparr>repeating_groups := repeating_groups st @
             [\<lparr>group_id = db_group_id, filing_id = filing_id g,
               parent_group_id = parent_group_id g,
               group_name = group_name g, group_xpath = group_xpath g\<rparr>],
           next_group_id := Suc db_group_id\<rparr>,
       AList.update (group_id g) db_group_id (snd sm)))"

definition map_group_values :: "(nat \<times> nat) list \<Rightarrow> group_value list \<Rightarrow> group_value list" where
  \<comment> \<open>\<open>batch_values\<close>: the values whose client-side group id is in the map, with the
      database id in its place; the others are skipped with a warning.\<close>
  "map_group_values group_id_map batch =
     concat (map (\<lambda>v. case map_of group_id_map (gv_group_id v) of
                         None \<Rightarrow> []
                       | Some db_group_id \<Rightarrow> [v\<lparr>gv_group_id := db_group_id\<rparr>]) batch)"

definition load_repeating_groups ::
  "int \<Rightarrow> store \<Rightarrow> group list \<Rightarrow> group_value list \<Rightarrow> py_error + store" where
  \<comment> \<open>\<open>PostgreSQLLoader._load_repeating_groups\<close>\<close>
  "load_repeating_groups batch_size st groups gvs =
     (if groups = [] then Inr st
      else
        let sm = foldl insert_group (st, []) groups in
        if gvs = [] then Inr (fst sm)
        else case batches batch_size gvs of
               Inl e \<Rightarrow> Inl e
             | Inr bs \<Rightarrow>
                 fold_err (\<lambda>s batch.
                     let batch_values = map_group_values (snd sm) batch
                     in if batch_values = [] then Inr s
                        else execute_values insert_group_values s batch_values)
                   (fst sm) bs)"

definition store_xml_metadata :: "store \<Rightarrow> pyval \<Rightarrow> string \<Rightarrow> store" where
  \<comment> \<open>\<open>PostgreSQLLoader._store_xml_metadata\<close>\<close>
  "store_xml_metadata st fid xml_hash =
     (if \<exists>r \<in> set (xml_metadata st). fst r = fid
      then st\<lparr>xml_metadata := map (\<lambda>r. if fst r = fid then (fst r, xml_hash) else r) (xml_metadata st)\<rparr>
      else st\<lparr>xml_metadata := xml_metadata st @ [(fid, xml_hash)]\<rparr>)"

definition load_steps :: "int \<Rightarrow> store \<Rightarrow> processed_data \<Rightarrow> py_error + store" where
  \<comment> \<open>the body of the \<open>try\<close> in \<open>_load_filing\<close>, up to the commit\<close>
  "load_steps batch_size st pd =
     (case load_organization st (pd_organization pd) of
        Inl e \<Rightarrow> Inl e
      | Inr s1 \<Rightarrow>
     (case load_filing_record s1 (pd_metadata pd) of
        Inl e \<Rightarrow> Inl e
      | Inr s2 \<Rightarrow>
     (case load_filing_values batch_size s2 (pd_filing_values pd) of
        Inl e \<Rightarrow> Inl e
      | Inr s3 \<Rightarrow>
     (case load_repeating_groups batch_size s3 (pd_repeating_groups pd) (pd_group_values pd) of
        Inl e \<Rightarrow> Inl e
      | Inr s4 \<Rightarrow>
          Inr (case pd_xml_hash pd of
                 None \<Rightarrow> s4
               | Some h \<Rightarrow> store_xml_metadata s4 (dget (pd_metadata pd) ''filing_id'') h)))))"

definition load_filing :: "int \<Rightarrow> store \<Rightarrow> processed_data \<Rightarrow> py_error + store" where
  \<comment> \<open>\<open>PostgreSQLLoader._load_filing\<close>: one transaction. \<open>Inl\<close> is the exception that
      leaves the method, after the rollback, so the store is then the one before the
      call; the text of the cause is not kept in the message.\<close>
  "load_filing batch_size st pd =
     (if falsy (dget (pd_metadata pd) ''filing_id'')
      then Inl (DatabaseError ''Missing filing_id in metadata'')
      else case load_steps batch_size st pd of
             Inl e \<Rightarrow> Inl (DatabaseError ''Error loading filing'')
           | Inr st' \<Rightarrow> Inr st')"

datatype load_result =
    Success pyval nat nat nat   \<comment> \<open>filing id and the three counts\<close>
  | Failure pyval               \<comment> \<open>status \<open>error\<close> and the filing id\<close>

fun load :: "int \<Rightarrow> store \<Rightarrow> processed_data list \<Rightarrow> store \<times> load_result list" where
  \<comment> \<open>\<open>PostgreSQLLoader.load\<close>\<close>
  "load batch_size st [] = (st, [])"
| "load batch_size st (pd # pds) =
     (case load_filing batch_size st pd of
        Inl e \<Rightarrow>
          (let r = load batch_size st pds
           in (fst r, Failure (dget_default (pd_metadata pd) ''filing_id'' (PStr ''unknown'')) # snd r))
      | Inr st' \<Rightarrow>
          (let r = load batch_size st' pds
           in (fst r, Success (dget (pd_metadata pd) ''filing_id'') (length (pd_filing_values pd))
                        (length (pd_repeating_groups pd)) (length (pd_group_values pd)) # snd r)))"



section \<open>Example documents\<close>

text \<open>The header of the end-to-end example: employer id 123456789, tax period
  2020-12-31, return type 990, no namespaces.\<close>

definition example_doc :: document where
  "example_doc = \<lparr>doc_nsmap = [], doc_root =
     Element None ''Return'' [] None
       [Element None ''ReturnHeader'' [] None
          [Element None ''ReturnTypeCd'' [] (Some ''990'') [],
           Element None ''Filer'' [] None [Element None ''EIN'' [] (Some ''123456789'') []],
           Element None ''TaxPeriodEndDt'' [] (Some ''2020-12-31'') []]]\<rparr>"

text \<open>A document whose filer has a foreign address with the country code CA, and one
  with two foreign addresses, the first without a country code.\<close>

definition foreign_doc :: document where
  "foreign_doc = \<lparr>doc_nsmap = [], doc_root =
     Element None ''Return'' [] None
       [Element None ''ReturnHeader'' [] None
          [Element None ''Filer'' [] None
             [Element None ''EIN'' [] (Some ''123456789'') [],
              Element None ''ForeignAddress'' [] None
                [Element None ''AddressLine1Txt'' [] (Some ''1 Main St'') [],
                 Element None ''CountryCd'' [] (Some '' CA '') []]]]]\<rparr>"

definition two_codes_doc :: document where
  "two_codes_doc = \<lparr>doc_nsmap = [], doc_root =
     Element None ''Return'' [] None
       [Element None ''ReturnHeader'' [] None
          [Element None ''Filer'' [] None
             [Element None ''ForeignAddress'' [] None
                [Element None ''CountryCd'' [] None []]],
           Element None ''PreparerFirmGrp'' [] None
             [Element None ''ForeignAddress'' [] None
                [Element None ''CountryCd'' [] (Some ''CA'') []]]]]\<rparr>"

text \<open>A store with one organization and one filing whose tax year is known; metadata
  for the same filing that carry no tax year; and organization data for the same employer
  that carry no name.\<close>

definition store_2020 :: store where
  "store_2020 =
     \<lparr>organizations =
        [\<lparr>o_ein = PStr ''123456789'', o_name = PStr ''Test Charity'',
          o_address_line1 = PStr ''123 Main St'', o_address_line2 = PNone,
          o_city = PStr ''Anytown'', o_state = PStr ''CA'', o_zip = PStr ''90210'',
          o_country = PStr ''US'', o_website = PNone\<rparr>],
      filings = [\<lparr>f_filing_id = PStr ''123456789_2020-12-31_990'', f_object_id = PStr ''a.xml'',
                  f_ein = PStr ''123456789'', f_tax_period = PStr ''2020-12-31'',
                  f_form_type = PStr ''990'', f_form_version = PStr ''2020v4.0'',
                  f_tax_year = PInt 2020, f_submission_date = PNone\<rparr>],
      filing_values = [], repeating_groups = [], repeating_group_values = [],
      xml_metadata = [], next_group_id = 1\<rparr>"

definition metadata_no_year :: pydict where
  "metadata_no_year =
     [(''filing_id'', PStr ''123456789_2020-12-31_990''), (''ein'', PStr ''123456789''),
      (''object_id'', PStr ''b.xml''), (''form_version'', PStr ''2020v4.1''),
      (''tax_year'', PNone)]"

definition store_2020_after :: store where
  "store_2020_after =
     store_2020\<lparr>filings :=
       [\<lparr>f_filing_id = PStr ''123456789_2020-12-31_990'', f_object_id = PStr ''b.xml'',
         f_ein = PStr ''123456789'', f_tax_period = PStr ''2020-12-31'',
         f_form_type = PStr ''990'', f_form_version = PStr ''2020v4.1'',
         f_tax_year = PNone, f_submission_date = PNone\<rparr>]\<rparr>"

definition organization_no_name :: pydict where
  "organization_no_name =
     [(''ein'', PStr ''123456789''), (''name'', PNone), (''city'', PStr ''Newtown'')]"

definition store_2020_org_after :: store where
  "store_2020_org_after =
     store_2020\<lparr>organizations :=
       [\<lparr>o_ein = PStr ''123456789'', o_name = PStr ''Test Charity'',
         o_address_line1 = PStr ''123 Main St'', o_address_line2 = PNone,
         o_city = PStr ''Newtown'', o_state = PStr ''CA'', o_zip = PStr ''90210'',
         o_country = PStr ''US'', o_website = PNone\<rparr>]\<rparr>"





section \<open>Properties of the value conversion\<close>

lemma float_of_clean_error: "float_of_clean s = Inl e \<Longrightarrow> e = ValueError"
  by (simp add: float_of_clean_def split: if_splits)

lemma numeric_chars_filter:
  "numeric_chars v = filter (\<lambda>c. c \<in> set ''0123456789.-'') v"
  unfolding numeric_chars_def is_digit_def by (rule filter_cong) auto

lemma tr_convert_value_numeric:
  "tr_convert_value v ''numeric'' =
     Inr (case float_of_clean (numeric_chars v) of
            Inr x \<Rightarrow> no_slots\<lparr>numeric_value := Some x\<rparr>
          | Inl _ \<Rightarrow> no_slots\<lparr>text_value := Some v\<rparr>)"
proof (cases "float_of_clean (numeric_chars v)")
  case (Inl e)
  then have "e = ValueError" by (rule float_of_clean_error)
  with Inl show ?thesis by (simp add: tr_convert_value_def)
next
  case (Inr x)
  then show ?thesis by (simp add: tr_convert_value_def)
qed

lemma tr_convert_value_boolean:
  "tr_convert_value v ''boolean'' =
     Inr (no_slots\<lparr>boolean_value :=
            Some (lower v \<in> {''true'', ''yes'', ''1'', ''t'', ''y'', ''x''})\<rparr>)"
  by (simp add: tr_convert_value_def)

lemma tr_convert_value_date:
  "tr_convert_value v ''date'' = Inr (no_slots\<lparr>date_value := Some v\<rparr>)"
  by (simp add: tr_convert_value_def)

lemma tr_convert_value_one_slot:
  "\<exists>r. tr_convert_value v dt = Inr r \<and> populated r = 1"
proof (cases "float_of_clean (numeric_chars v)")
  case (Inl e)
  then have "e = ValueError" by (rule float_of_clean_error)
  with Inl show ?thesis
    by (simp add: tr_convert_value_def populated_def no_slots_def)
next
  case (Inr x)
  then show ?thesis
    by (simp add: tr_convert_value_def populated_def no_slots_def)
qed

lemma tr_convert_value_total: "\<exists>r. tr_convert_value v dt = Inr r"
  using tr_convert_value_one_slot [of v dt] by blast

lemma tr_convert_value_populated:
  "tr_convert_value v dt = Inr r \<Longrightarrow> populated r = 1"
  using tr_convert_value_one_slot [of v dt] by force

lemma float_of_clean_example:
  "float_of_clean (numeric_chars ''1,234.50'') = Inr (Float ''1234.50'') \<and>
   float_of_clean (numeric_chars ''not-a-number'') = Inl ValueError"
  by (simp add: numeric_chars_def float_of_clean_def clean_float_literal_def is_digit_def)

lemma decimal_value_example: "decimal_value ''1234.50'' = 1234.5"
  by (simp add: decimal_value_def is_digit_def dec_nat_def digit_val_def)

lemma tr_convert_value_example_numeric:
  "tr_convert_value ''1,234.50'' ''numeric'' =
     Inr (no_slots\<lparr>numeric_value := Some (Float ''1234.50'')\<rparr>)"
  using float_of_clean_example by (simp add: tr_convert_value_def)

lemma tr_convert_value_example_failure:
  "tr_convert_value ''not-a-number'' ''numeric'' =
     Inr (no_slots\<lparr>text_value := Some ''not-a-number''\<rparr>)"
  using float_of_clean_example by (simp add: tr_convert_value_def)

lemma lower_example: "lower ''YES'' = ''yes'' \<and> lower ''X'' = ''x'' \<and> lower ''No'' = ''no''"
  by (simp add: lower_def py_lower_char_def upper_chars_def lower_chars_def)

lemma tr_convert_value_example_boolean:
  "tr_convert_value ''YES'' ''boolean'' = Inr (no_slots\<lparr>boolean_value := Some True\<rparr>)"
  using lower_example by (simp add: tr_convert_value_def)

lemma convert_value_None: "convert_value float_repr None dt = no_slots"
  by (simp add: convert_value_def)

lemma convert_value_number:
  "convert_value float_repr (Some v) ''number'' =
     (case float_of_clean (numeric_chars v) of
        Inr x \<Rightarrow> no_slots\<lparr>numeric_value := Some x, text_value := Some (float_repr x)\<rparr>
      | Inl _ \<Rightarrow> no_slots\<lparr>text_value := Some v\<rparr>)"
  by (simp add: convert_value_def)

lemma convert_value_numeric: "convert_value float_repr (Some v) ''numeric'' = no_slots\<lparr>text_value := Some v\<rparr>"
  by (simp add: convert_value_def)

lemma convert_value_boolean:
  "convert_value float_repr (Some v) ''boolean'' =
     (if lower v \<in> {''true'', ''yes'', ''1'', ''t'', ''y''}
      then no_slots\<lparr>boolean_value := Some True, text_value := Some ''true''\<rparr>
      else if lower v \<in> {''false'', ''no'', ''0'', ''f'', ''n''}
      then no_slots\<lparr>boolean_value := Some False, text_value := Some ''false''\<rparr>
      else no_slots\<lparr>text_value := Some v\<rparr>)"
  by (simp add: convert_value_def)

lemma convert_value_date:
  "convert_value float_repr (Some v) ''date'' = no_slots\<lparr>date_value := Some v, text_value := Some v\<rparr>"
  by (simp add: convert_value_def)

text \<open>
  C5, as the code has it. The rules of the claim are those of the transformer's
  \<open>_convert_value\<close>, which never raises. For \<open>numeric\<close> every character other than a
  digit, the minus sign and the point is removed and the rest is parsed as a float: on
  success the number fills the numeric slot and the text slot stays empty (\<open>1,234.50\<close>
  gives the float of the literal \<open>1234.50\<close>, that is 1234.5), on a parse failure the raw
  text fills the text slot and the numeric slot stays empty. For \<open>boolean\<close> the result is
  true exactly when the lowercased value is one of \<open>true, yes, 1, t, y, x\<close> and false
  otherwise. For \<open>date\<close> the value is stored as it is.

  \<open>convert_value\<close> of repeating_groups/utils.py never raises either, but follows other
  rules. \<open>None\<close> gives four empty slots. Its numeric type is named \<open>number\<close> (a value
  declared \<open>numeric\<close> is stored as text); a parsed number fills the numeric slot and its
  printed form fills the text slot as well. For \<open>boolean\<close> the true tokens are
  \<open>true, yes, 1, t, y\<close> (\<open>x\<close> is not one), the tokens \<open>false, no, 0, f, n\<close> give false,
  the text slot holds \<open>true\<close> or \<open>false\<close>, and any other value is stored as text with the
  boolean slot empty. For \<open>date\<close> the value fills the date slot and the text slot.
\<close>

theorem convert_value_rules:
  "(\<exists>r. tr_convert_value v dt = Inr r) \<and>
   numeric_chars v = filter (\<lambda>c. c \<in> set ''0123456789.-'') v \<and>
   tr_convert_value v ''numeric'' =
     Inr (case float_of_clean (numeric_chars v) of
            Inr x \<Rightarrow> no_slots\<lparr>numeric_value := Some x\<rparr>
          | Inl _ \<Rightarrow> no_slots\<lparr>text_value := Some v\<rparr>) \<and>
   tr_convert_value ''1,234.50'' ''numeric'' =
     Inr (no_slots\<lparr>numeric_value := Some (Float ''1234.50'')\<rparr>) \<and>
   decimal_value ''1234.50'' = 1234.5 \<and>
   tr_convert_value ''not-a-number'' ''numeric'' =
     Inr (no_slots\<lparr>text_value := Some ''not-a-number''\<rparr>) \<and>
   tr_convert_value v ''boolean'' =
     Inr (no_slots\<lparr>boolean_value :=
            Some (lower v \<in> {''true'', ''yes'', ''1'', ''t'', ''y'', ''x''})\<rparr>) \<and>
   tr_convert_value ''YES'' ''boolean'' = Inr (no_slots\<lparr>boolean_value := Some True\<rparr>) \<and>
   tr_convert_value v ''date'' = Inr (no_slots\<lparr>date_value := Some v\<rparr>) \<and>
   convert_value float_repr None dt = no_slots \<and>
   convert_value float_repr (Some v) ''number'' =
     (case float_of_clean (numeric_chars v) of
        Inr x \<Rightarrow> no_slots\<lparr>numeric_value := Some x, text_value := Some (float_repr x)\<rparr>
      | Inl _ \<Rightarrow> no_slots\<lparr>text_value := Some v\<rparr>) \<and>
   convert_value float_repr (Some v) ''numeric'' = no_slots\<lparr>text_value := Some v\<rparr> \<and>
   convert_value float_repr (Some v) ''boolean'' =
     (if lower v \<in> {''true'', ''yes'', ''1'', ''t'', ''y''}
      then no_slots\<lparr>boolean_value := Some True, text_value := Some ''true''\<rparr>
      else if lower v \<in> {''false'', ''no'', ''0'', ''f'', ''n''}
      then no_slots\<lparr>boolean_value := Some False, text_value := Some ''false''\<rparr>
      else no_slots\<lparr>text_value := Some v\<rparr>) \<and>
   convert_value float_repr (Some v) ''date'' =
     no_slots\<lparr>date_value := Some v, text_value := Some v\<rparr>"
  using tr_convert_value_total [of v dt] numeric_chars_filter [of v]
    tr_convert_value_numeric [of v] tr_convert_value_example_numeric decimal_value_example
    tr_convert_value_example_failure tr_convert_value_boolean [of v]
    tr_convert_value_example_boolean tr_convert_value_date [of v]
    convert_value_None [of float_repr dt] convert_value_number [of float_repr v]
    convert_value_numeric [of float_repr v] convert_value_boolean [of float_repr v]
    convert_value_date [of float_repr v]
  by (intro conjI)

theorem convert_value_rules_witness:
  "tr_convert_value ''$ 12.5'' ''numeric'' = Inr (no_slots\<lparr>numeric_value := Some (Float ''12.5'')\<rparr>) \<and>
   tr_convert_value ''X'' ''boolean'' = Inr (no_slots\<lparr>boolean_value := Some True\<rparr>) \<and>
   tr_convert_value ''No'' ''boolean'' = Inr (no_slots\<lparr>boolean_value := Some False\<rparr>) \<and>
   tr_convert_value ''31/12/2020'' ''date'' = Inr (no_slots\<lparr>date_value := Some ''31/12/2020''\<rparr>) \<and>
   convert_value (\<lambda>x. ''12.5'') (Some ''$ 12.5'') ''number'' =
     no_slots\<lparr>numeric_value := Some (Float ''12.5''), text_value := Some ''12.5''\<rparr> \<and>
   convert_value (\<lambda>x. ''12.5'') (Some ''No'') ''boolean'' =
     no_slots\<lparr>boolean_value := Some False, text_value := Some ''false''\<rparr> \<and>
   convert_value (\<lambda>x. ''12.5'') (Some ''31/12/2020'') ''date'' =
     no_slots\<lparr>date_value := Some ''31/12/2020'', text_value := Some ''31/12/2020''\<rparr>"
proof -
  have f: "float_of_clean (numeric_chars ''$ 12.5'') = Inr (Float ''12.5'')"
    by (simp add: numeric_chars_def float_of_clean_def clean_float_literal_def is_digit_def)
  have l: "lower ''X'' = ''x''" "lower ''No'' = ''no''"
    using lower_example by simp_all
  note n = convert_value_rules [of "''$ 12.5''" "''numeric''" "\<lambda>x. ''12.5''"]
  note x = convert_value_rules [of "''X''" "''boolean''" "\<lambda>x. ''12.5''"]
  note b = convert_value_rules [of "''No''" "''boolean''" "\<lambda>x. ''12.5''"]
  note d = convert_value_rules [of "''31/12/2020''" "''date''" "\<lambda>x. ''12.5''"]
  from n have n1: "tr_convert_value ''$ 12.5'' ''numeric'' =
     Inr (case float_of_clean (numeric_chars ''$ 12.5'') of
            Inr x \<Rightarrow> no_slots\<lparr>numeric_value := Some x\<rparr>
          | Inl _ \<Rightarrow> no_slots\<lparr>text_value := Some ''$ 12.5''\<rparr>)"
    by blast
  from n have n2: "convert_value (\<lambda>x. ''12.5'') (Some ''$ 12.5'') ''number'' =
     (case float_of_clean (numeric_chars ''$ 12.5'') of
        Inr x \<Rightarrow> no_slots\<lparr>numeric_value := Some x, text_value := Some ''12.5''\<rparr>
      | Inl _ \<Rightarrow> no_slots\<lparr>text_value := Some ''$ 12.5''\<rparr>)"
    by blast
  from x have x1: "tr_convert_value ''X'' ''boolean'' =
     Inr (no_slots\<lparr>boolean_value :=
            Some (lower ''X'' \<in> {''true'', ''yes'', ''1'', ''t'', ''y'', ''x''})\<rparr>)"
    by blast
  from b have b1: "tr_convert_value ''No'' ''boolean'' =
     Inr (no_slots\<lparr>boolean_value :=
            Some (lower ''No'' \<in> {''true'', ''yes'', ''1'', ''t'', ''y'', ''x''})\<rparr>)"
    by blast
  from b have b2: "convert_value (\<lambda>x. ''12.5'') (Some ''No'') ''boolean'' =
     (if lower ''No'' \<in> {''true'', ''yes'', ''1'', ''t'', ''y''}
      then no_slots\<lparr>boolean_value := Some True, text_value := Some ''true''\<rparr>
      else if lower ''No'' \<in> {''false'', ''no'', ''0'', ''f'', ''n''}
      then no_slots\<lparr>boolean_value := Some False, text_value := Some ''false''\<rparr>
      else no_slots\<lparr>text_value := Some ''No''\<rparr>)"
    by blast
  from d have d1: "tr_convert_value ''31/12/2020'' ''date'' =
     Inr (no_slots\<lparr>date_value := Some ''31/12/2020''\<rparr>)"
    by blast
  from d have d2: "convert_value (\<lambda>x. ''12.5'') (Some ''31/12/2020'') ''date'' =
     no_slots\<lparr>date_value := Some ''31/12/2020'', text_value := Some ''31/12/2020''\<rparr>"
    by blast
  from n1 f have "tr_convert_value ''$ 12.5'' ''numeric'' =
      Inr (no_slots\<lparr>numeric_value := Some (Float ''12.5'')\<rparr>)"
    by simp
  moreover from x1 l have "tr_convert_value ''X'' ''boolean'' =
      Inr (no_slots\<lparr>boolean_value := Some True\<rparr>)"
    by simp
  moreover from b1 l have "tr_convert_value ''No'' ''boolean'' =
      Inr (no_slots\<lparr>boolean_value := Some False\<rparr>)"
    by simp
  moreover from n2 f have "convert_value (\<lambda>x. ''12.5'') (Some ''$ 12.5'') ''number'' =
     no_slots\<lparr>numeric_value := Some (Float ''12.5''), text_value := Some ''12.5''\<rparr>"
    by simp
  moreover from b2 l have "convert_value (\<lambda>x. ''12.5'') (Some ''No'') ''boolean'' =
     no_slots\<lparr>boolean_value := Some False, text_value := Some ''false''\<rparr>"
    by simp
  ultimately show ?thesis using d1 d2 by blast
qed

text \<open>
  The claim as the spec states it fails for \<open>convert_value\<close> of
  repeating_groups/utils.py, which the claim cites: the value \<open>x\<close> declared \<open>boolean\<close> is
  not true there but stored as text with the boolean slot empty, a value outside both
  token sets is not false but text, a value declared \<open>numeric\<close> is not parsed, and a
  parsed \<open>number\<close> leaves the text slot filled.
\<close>

theorem convert_value_counterexample:
  "(\<forall>float_repr. convert_value float_repr (Some ''x'') ''boolean'' = no_slots\<lparr>text_value := Some ''x''\<rparr>) \<and>
   (\<forall>float_repr. boolean_value (convert_value float_repr (Some ''x'') ''boolean'') = None) \<and>
   tr_convert_value ''x'' ''boolean'' = Inr (no_slots\<lparr>boolean_value := Some True\<rparr>) \<and>
   (\<forall>float_repr. convert_value float_repr (Some ''maybe'') ''boolean'' =
      no_slots\<lparr>text_value := Some ''maybe''\<rparr>) \<and>
   (\<forall>float_repr. convert_value float_repr (Some ''1,234.50'') ''numeric'' =
      no_slots\<lparr>text_value := Some ''1,234.50''\<rparr>) \<and>
   (\<forall>float_repr. convert_value float_repr (Some ''1,234.50'') ''number'' =
      no_slots\<lparr>numeric_value := Some (Float ''1234.50''),
                text_value := Some (float_repr (Float ''1234.50''))\<rparr>)"
  using float_of_clean_example
  by (simp add: convert_value_def tr_convert_value_def no_slots_def lower_def py_lower_char_def
      upper_chars_def lower_chars_def)

section \<open>Properties of metadata and organization extraction\<close>

lemma get_text_country_empty:
  "select_nodes nss [AnyLocal ''ForeignAddress'', AnyLocal ''CountryCd''] (doc_nodes doc) = [] \<Longrightarrow>
   get_text doc nss country_patterns = None"
  by (simp add: country_patterns_def child_pat_def prefixes_bound_def)

lemma get_text_country_first:
  "select_nodes nss [AnyLocal ''ForeignAddress'', AnyLocal ''CountryCd''] (doc_nodes doc) = n # ns \<Longrightarrow>
   elem_text (node_elem n) = Some t \<Longrightarrow> t \<noteq> [] \<Longrightarrow>
   get_text doc nss country_patterns = Some (strip t)"
  by (simp add: country_patterns_def child_pat_def prefixes_bound_def truthy_def)

lemma strip_Nil: "strip [] = []"
  by (simp add: strip_def)

lemma get_text_country_cases:
  "get_text doc nss country_patterns =
     (case select_nodes nss [AnyLocal ''ForeignAddress'', AnyLocal ''CountryCd''] (doc_nodes doc) of
        [] \<Rightarrow> None
      | n # ns \<Rightarrow> (case elem_text (node_elem n) of
                    None \<Rightarrow> None
                  | Some t \<Rightarrow> if t = [] then None else Some (strip t)))"
  by (simp add: country_patterns_def child_pat_def prefixes_bound_def truthy_def
      split: list.splits option.splits)

lemma extract_country_cases:
  "extract_country doc nss =
     Some (case get_text doc nss country_patterns of
             None \<Rightarrow> ''US'' | Some c \<Rightarrow> if c = [] then ''US'' else c)"
  by (simp add: extract_country_def truthy_def split: option.splits)

lemma extract_country_first:
  "extract_country doc nss =
     Some (case select_nodes nss [AnyLocal ''ForeignAddress'', AnyLocal ''CountryCd''] (doc_nodes doc) of
             [] \<Rightarrow> ''US''
           | n # ns \<Rightarrow> (case elem_text (node_elem n) of
                         None \<Rightarrow> ''US''
                       | Some t \<Rightarrow> if strip t = [] then ''US'' else strip t))"
  by (simp add: extract_country_cases get_text_country_cases strip_Nil
      split: list.splits option.splits)

lemma extract_country_nonempty: "\<exists>c. extract_country doc nss = Some c \<and> c \<noteq> []"
  by (simp add: extract_country_cases split: option.splits)

lemma tr_country:
  "dget (tr_extract_organization_info doc nss ein) ''country'' = opt_str (extract_country doc nss)"
  by (simp add: tr_extract_organization_info_def org_fields_def dget_def)

lemma parser_country:
  "dget (parser_extract_organization_info nss doc) ''country'' = opt_str (extract_country doc nss)"
  by (simp add: parser_extract_organization_info_def org_fields_def dget_def)

lemma tr_extract_metadata_Inr:
  assumes "tr_extract_metadata doc nss fn = Inr md"
  shows "\<exists>e p f. e \<noteq> [] \<and> p \<noteq> [] \<and> f \<noteq> [] \<and>
           get_text doc nss ein_patterns = Some e \<and>
           get_text doc nss tax_period_patterns = Some p \<and>
           get_text doc nss form_type_patterns = Some f \<and>
           dget md ''ein'' = PStr e \<and> dget md ''tax_period'' = PStr p \<and>
           dget md ''form_type'' = PStr f \<and>
           dget md ''filing_id'' = PStr (e @ ''_'' @ p @ ''_'' @ f)"
proof -
  from assms obtain e where e: "get_text doc nss ein_patterns = Some e" "e \<noteq> []"
    by (cases "get_text doc nss ein_patterns")
       (auto simp: tr_extract_metadata_def truthy_def Let_def split: if_splits)
  from assms e obtain p where p: "get_text doc nss tax_period_patterns = Some p" "p \<noteq> []"
    by (cases "get_text doc nss tax_period_patterns")
       (auto simp: tr_extract_metadata_def truthy_def Let_def split: if_splits)
  from assms e p obtain f where f: "get_text doc nss form_type_patterns = Some f" "f \<noteq> []"
    by (cases "get_text doc nss form_type_patterns")
       (auto simp: tr_extract_metadata_def truthy_def Let_def split: if_splits)
  from assms e p f have
    "md = [(''filing_id'', PStr (make_filing_id e p f)), (''ein'', PStr e),
           (''tax_period'', PStr p), (''form_type'', PStr f),
           (''form_version'', PStr (tr_form_version (doc_root doc) nss)),
           (''tax_year'', opt_int (tr_tax_year p)),
           (''submission_date'', opt_str (get_text doc nss submission_patterns)),
           (''object_id'', PStr fn)]"
    by (simp add: tr_extract_metadata_def truthy_def Let_def)
  then have "dget md ''ein'' = PStr e \<and> dget md ''tax_period'' = PStr p \<and>
      dget md ''form_type'' = PStr f \<and> dget md ''filing_id'' = PStr (e @ ''_'' @ p @ ''_'' @ f)"
    by (simp add: dget_def make_filing_id_def)
  with e p f show ?thesis by blast
qed

lemma tr_extract_metadata_found:
  assumes "get_text doc nss ein_patterns = Some e" and "e \<noteq> []"
    and "get_text doc nss tax_period_patterns = Some p" and "p \<noteq> []"
    and "get_text doc nss form_type_patterns = Some f" and "f \<noteq> []"
  shows "\<exists>md. tr_extract_metadata doc nss fn = Inr md \<and>
           dget md ''filing_id'' = PStr (e @ ''_'' @ p @ ''_'' @ f)"
  using assms by (simp add: tr_extract_metadata_def truthy_def dget_def make_filing_id_def)

lemma tr_extract_metadata_missing:
  assumes "\<not> (truthy (get_text doc nss ein_patterns) \<and>
              truthy (get_text doc nss tax_period_patterns) \<and>
              truthy (get_text doc nss form_type_patterns))"
  shows "\<exists>m. tr_extract_metadata doc nss fn = Inl (XMLProcessingError m)"
  using assms by (auto simp: tr_extract_metadata_def Let_def)

lemma parser_filing_id_found:
  assumes "get_text doc (parser_namespaces pns doc) parser_ein_patterns = Some e" and "e \<noteq> []"
    and "get_text doc (parser_namespaces pns doc) parser_tax_period_patterns = Some p" and "p \<noteq> []"
    and "get_text doc (parser_namespaces pns doc) parser_form_type_patterns = Some f" and "f \<noteq> []"
  shows "map_of (parser_extract_metadata pns doc) ''filing_id'' = Some (PStr (e @ ''_'' @ p @ ''_'' @ f)) \<and>
         dget (parser_extract_metadata pns doc) ''ein'' = PStr e \<and>
         dget (parser_extract_metadata pns doc) ''tax_period'' = PStr p \<and>
         dget (parser_extract_metadata pns doc) ''form_type'' = PStr f"
  using assms
  by (simp add: parser_extract_metadata_def Let_def dget_def opt_str_def truthy_def
      make_filing_id_def)

lemma parser_filing_id_missing:
  assumes "\<not> (truthy (get_text doc (parser_namespaces pns doc) parser_ein_patterns) \<and>
              truthy (get_text doc (parser_namespaces pns doc) parser_tax_period_patterns) \<and>
              truthy (get_text doc (parser_namespaces pns doc) parser_form_type_patterns))"
  shows "map_of (parser_extract_metadata pns doc) ''filing_id'' = None"
  using assms
  by (auto simp: parser_extract_metadata_def Let_def)

lemma example_doc_eval:
  "tr_namespaces example_doc = [] \<and>
   get_text example_doc [] ein_patterns = Some ''123456789'' \<and>
   get_text example_doc [] tax_period_patterns = Some ''2020-12-31'' \<and>
   get_text example_doc [] form_type_patterns = Some ''990'' \<and>
   get_text example_doc [] country_patterns = None \<and>
   map_of (attrib (doc_root example_doc)) ''returnVersion'' = None"
  by (simp add: example_doc_def tr_namespaces_def ein_patterns_def tax_period_patterns_def
      form_type_patterns_def country_patterns_def child_pat_def local_pat_def header_pat_def
      prefixes_bound_def select_nodes_def doc_nodes_def node_elem_def node_anc_def
      root_node_def truthy_def strip_def is_space_def)

lemma example_doc_parser_eval:
  "get_text example_doc (parser_namespaces NAMESPACES example_doc) parser_ein_patterns =
     Some ''123456789'' \<and>
   get_text example_doc (parser_namespaces NAMESPACES example_doc) parser_tax_period_patterns =
     Some ''2020-12-31'' \<and>
   get_text example_doc (parser_namespaces NAMESPACES example_doc) parser_form_type_patterns =
     Some ''990''"
  by (simp add: example_doc_def parser_namespaces_def NAMESPACES_def parser_ein_patterns_def
      parser_tax_period_patterns_def parser_form_type_patterns_def ein_patterns_def
      tax_period_patterns_def form_type_patterns_def local_pat_def header_pat_def
      prefixes_bound_def select_nodes_def doc_nodes_def node_elem_def node_anc_def
      root_node_def truthy_def strip_def is_space_def)

text \<open>
  C2. The filing id is the employer id, the tax period and the form type located in the
  document, joined with underscores in that order. Whenever the transformer's metadata
  extraction returns, the three fields were located by their patterns, none is empty, and
  the \<open>filing_id\<close> entry is that string of them; whenever the three fields are located
  and not empty, the extraction returns and the \<open>filing_id\<close> entry is that string
  (123456789, 2020-12-31 and 990 give 123456789_2020-12-31_990); when one of them is not
  located or is empty, the extraction raises and there is no filing id. Two documents in
  which the same three fields are located get the same filing id, whatever else differs
  (file name, namespaces, the rest of the document), so that transforming a document again
  gives the same id. The parser of xml/parser.py sets its \<open>filing_id\<close> entry to the same
  string of the three fields it located when none of them is missing or empty, and sets
  no \<open>filing_id\<close> entry otherwise.
\<close>

theorem filing_id_of_three_fields:
  "(tr_extract_metadata doc nss fn = Inr md \<longrightarrow>
      (\<exists>e p f. get_text doc nss ein_patterns = Some e \<and>
         get_text doc nss tax_period_patterns = Some p \<and>
         get_text doc nss form_type_patterns = Some f \<and>
         e \<noteq> [] \<and> p \<noteq> [] \<and> f \<noteq> [] \<and>
         dget md ''ein'' = PStr e \<and> dget md ''tax_period'' = PStr p \<and>
         dget md ''form_type'' = PStr f \<and>
         dget md ''filing_id'' = PStr (e @ ''_'' @ p @ ''_'' @ f))) \<and>
   (get_text doc nss ein_patterns = Some e \<and> e \<noteq> [] \<and>
    get_text doc nss tax_period_patterns = Some p \<and> p \<noteq> [] \<and>
    get_text doc nss form_type_patterns = Some f \<and> f \<noteq> [] \<longrightarrow>
      (\<exists>md. tr_extract_metadata doc nss fn = Inr md \<and>
         dget md ''filing_id'' = PStr (e @ ''_'' @ p @ ''_'' @ f))) \<and>
   (\<not> (truthy (get_text doc nss ein_patterns) \<and> truthy (get_text doc nss tax_period_patterns) \<and>
        truthy (get_text doc nss form_type_patterns)) \<longrightarrow>
      (\<exists>m. tr_extract_metadata doc nss fn = Inl (XMLProcessingError m))) \<and>
   (tr_extract_metadata doc nss fn = Inr md \<and> tr_extract_metadata doc' nss' fn' = Inr md' \<and>
    get_text doc nss ein_patterns = get_text doc' nss' ein_patterns \<and>
    get_text doc nss tax_period_patterns = get_text doc' nss' tax_period_patterns \<and>
    get_text doc nss form_type_patterns = get_text doc' nss' form_type_patterns \<longrightarrow>
      dget md ''filing_id'' = dget md' ''filing_id'') \<and>
   (get_text doc (parser_namespaces pns doc) parser_ein_patterns = Some e \<and> e \<noteq> [] \<and>
    get_text doc (parser_namespaces pns doc) parser_tax_period_patterns = Some p \<and> p \<noteq> [] \<and>
    get_text doc (parser_namespaces pns doc) parser_form_type_patterns = Some f \<and> f \<noteq> [] \<longrightarrow>
      map_of (parser_extract_metadata pns doc) ''filing_id'' =
        Some (PStr (e @ ''_'' @ p @ ''_'' @ f)) \<and>
      dget (parser_extract_metadata pns doc) ''ein'' = PStr e \<and>
      dget (parser_extract_metadata pns doc) ''tax_period'' = PStr p \<and>
      dget (parser_extract_metadata pns doc) ''form_type'' = PStr f) \<and>
   (\<not> (truthy (get_text doc (parser_namespaces pns doc) parser_ein_patterns) \<and>
        truthy (get_text doc (parser_namespaces pns doc) parser_tax_period_patterns) \<and>
        truthy (get_text doc (parser_namespaces pns doc) parser_form_type_patterns)) \<longrightarrow>
      map_of (parser_extract_metadata pns doc) ''filing_id'' = None) \<and>
   make_filing_id ''123456789'' ''2020-12-31'' ''990'' = ''123456789_2020-12-31_990''"
proof (intro conjI impI)
  assume "tr_extract_metadata doc nss fn = Inr md"
  from tr_extract_metadata_Inr [OF this]
  show "\<exists>e p f. get_text doc nss ein_patterns = Some e \<and>
         get_text doc nss tax_period_patterns = Some p \<and>
         get_text doc nss form_type_patterns = Some f \<and>
         e \<noteq> [] \<and> p \<noteq> [] \<and> f \<noteq> [] \<and>
         dget md ''ein'' = PStr e \<and> dget md ''tax_period'' = PStr p \<and>
         dget md ''form_type'' = PStr f \<and>
         dget md ''filing_id'' = PStr (e @ ''_'' @ p @ ''_'' @ f)"
    by blast
next
  assume "get_text doc nss ein_patterns = Some e \<and> e \<noteq> [] \<and>
    get_text doc nss tax_period_patterns = Some p \<and> p \<noteq> [] \<and>
    get_text doc nss form_type_patterns = Some f \<and> f \<noteq> []"
  then show "\<exists>md. tr_extract_metadata doc nss fn = Inr md \<and>
         dget md ''filing_id'' = PStr (e @ ''_'' @ p @ ''_'' @ f)"
    using tr_extract_metadata_found [of doc nss e p f fn] by blast
next
  assume "\<not> (truthy (get_text doc nss ein_patterns) \<and> truthy (get_text doc nss tax_period_patterns) \<and>
        truthy (get_text doc nss form_type_patterns))"
  then show "\<exists>m. tr_extract_metadata doc nss fn = Inl (XMLProcessingError m)"
    by (rule tr_extract_metadata_missing)
next
  assume a: "tr_extract_metadata doc nss fn = Inr md \<and> tr_extract_metadata doc' nss' fn' = Inr md' \<and>
    get_text doc nss ein_patterns = get_text doc' nss' ein_patterns \<and>
    get_text doc nss tax_period_patterns = get_text doc' nss' tax_period_patterns \<and>
    get_text doc nss form_type_patterns = get_text doc' nss' form_type_patterns"
  from a tr_extract_metadata_Inr [of doc nss fn md] obtain e p f where
    1: "get_text doc nss ein_patterns = Some e" "get_text doc nss tax_period_patterns = Some p"
       "get_text doc nss form_type_patterns = Some f"
       "dget md ''filing_id'' = PStr (e @ ''_'' @ p @ ''_'' @ f)"
    by blast
  from a tr_extract_metadata_Inr [of doc' nss' fn' md'] obtain e' p' f' where
    2: "get_text doc' nss' ein_patterns = Some e'" "get_text doc' nss' tax_period_patterns = Some p'"
       "get_text doc' nss' form_type_patterns = Some f'"
       "dget md' ''filing_id'' = PStr (e' @ ''_'' @ p' @ ''_'' @ f')"
    by blast
  from a 1 2 show "dget md ''filing_id'' = dget md' ''filing_id''" by simp
next
  assume a: "get_text doc (parser_namespaces pns doc) parser_ein_patterns = Some e \<and> e \<noteq> [] \<and>
    get_text doc (parser_namespaces pns doc) parser_tax_period_patterns = Some p \<and> p \<noteq> [] \<and>
    get_text doc (parser_namespaces pns doc) parser_form_type_patterns = Some f \<and> f \<noteq> []"
  note r = parser_filing_id_found [of doc pns e p f]
  from a r show "map_of (parser_extract_metadata pns doc) ''filing_id'' =
        Some (PStr (e @ ''_'' @ p @ ''_'' @ f))" by blast
  from a r show "dget (parser_extract_metadata pns doc) ''ein'' = PStr e" by blast
  from a r show "dget (parser_extract_metadata pns doc) ''tax_period'' = PStr p" by blast
  from a r show "dget (parser_extract_metadata pns doc) ''form_type'' = PStr f" by blast
next
  assume "\<not> (truthy (get_text doc (parser_namespaces pns doc) parser_ein_patterns) \<and>
        truthy (get_text doc (parser_namespaces pns doc) parser_tax_period_patterns) \<and>
        truthy (get_text doc (parser_namespaces pns doc) parser_form_type_patterns))"
  then show "map_of (parser_extract_metadata pns doc) ''filing_id'' = None"
    by (rule parser_filing_id_missing)
next
  show "make_filing_id ''123456789'' ''2020-12-31'' ''990'' = ''123456789_2020-12-31_990''"
    by (simp add: make_filing_id_def)
qed

theorem filing_id_of_three_fields_witness:
  "get_text example_doc (tr_namespaces example_doc) ein_patterns = Some ''123456789'' \<and>
   get_text example_doc (tr_namespaces example_doc) tax_period_patterns = Some ''2020-12-31'' \<and>
   get_text example_doc (tr_namespaces example_doc) form_type_patterns = Some ''990'' \<and>
   (\<exists>md. tr_extract_metadata example_doc (tr_namespaces example_doc) ''return.xml'' = Inr md \<and>
      dget md ''filing_id'' = PStr ''123456789_2020-12-31_990'') \<and>
   map_of (parser_extract_metadata NAMESPACES example_doc) ''filing_id'' =
     Some (PStr ''123456789_2020-12-31_990'') \<and>
   dget (parser_extract_metadata NAMESPACES example_doc) ''ein'' = PStr ''123456789''"
proof -
  note t = filing_id_of_three_fields [where doc = example_doc
      and nss = "tr_namespaces example_doc" and fn = "''return.xml''" and pns = NAMESPACES
      and e = "''123456789''" and p = "''2020-12-31''" and f = "''990''"]
  have g: "get_text example_doc (tr_namespaces example_doc) ein_patterns = Some ''123456789''"
    "get_text example_doc (tr_namespaces example_doc) tax_period_patterns = Some ''2020-12-31''"
    "get_text example_doc (tr_namespaces example_doc) form_type_patterns = Some ''990''"
    using example_doc_eval by simp_all
  have ne: "''123456789'' \<noteq> []" "''2020-12-31'' \<noteq> []" "''990'' \<noteq> []"
    by simp_all
  from t g ne have 1: "\<exists>md. tr_extract_metadata example_doc (tr_namespaces example_doc) ''return.xml'' = Inr md \<and>
      dget md ''filing_id'' = PStr (''123456789'' @ ''_'' @ ''2020-12-31'' @ ''_'' @ ''990'')"
    by blast
  from t example_doc_parser_eval ne have 2:
    "map_of (parser_extract_metadata NAMESPACES example_doc) ''filing_id'' =
       Some (PStr (''123456789'' @ ''_'' @ ''2020-12-31'' @ ''_'' @ ''990'')) \<and>
     dget (parser_extract_metadata NAMESPACES example_doc) ''ein'' = PStr ''123456789''"
    by blast
  from 1 have 3: "\<exists>md. tr_extract_metadata example_doc (tr_namespaces example_doc) ''return.xml'' = Inr md \<and>
      dget md ''filing_id'' = PStr ''123456789_2020-12-31_990''"
    by simp
  from 2 have 4: "map_of (parser_extract_metadata NAMESPACES example_doc) ''filing_id'' =
       Some (PStr ''123456789_2020-12-31_990'') \<and>
     dget (parser_extract_metadata NAMESPACES example_doc) ''ein'' = PStr ''123456789''"
    by simp
  from g 3 4 show ?thesis by blast
qed

lemma foreign_doc_eval:
  "select_nodes [] [AnyLocal ''ForeignAddress'', AnyLocal ''CountryCd''] (doc_nodes foreign_doc) =
     [([0, 0, 1, 1],
       [Element None ''ForeignAddress'' [] None
          [Element None ''AddressLine1Txt'' [] (Some ''1 Main St'') [],
           Element None ''CountryCd'' [] (Some '' CA '') []],
        Element None ''Filer'' [] None
          [Element None ''EIN'' [] (Some ''123456789'') [],
           Element None ''ForeignAddress'' [] None
             [Element None ''AddressLine1Txt'' [] (Some ''1 Main St'') [],
              Element None ''CountryCd'' [] (Some '' CA '') []]],
        Element None ''ReturnHeader'' [] None
          [Element None ''Filer'' [] None
             [Element None ''EIN'' [] (Some ''123456789'') [],
              Element None ''ForeignAddress'' [] None
                [Element None ''AddressLine1Txt'' [] (Some ''1 Main St'') [],
                 Element None ''CountryCd'' [] (Some '' CA '') []]]],
        doc_root foreign_doc],
       Element None ''CountryCd'' [] (Some '' CA '') [])]"
  by (simp add: foreign_doc_def select_nodes_def doc_nodes_def node_elem_def node_anc_def)

lemma strip_example: "strip '' CA '' = ''CA''"
  by (simp add: strip_def is_space_def)

text \<open>
  C10, as the code has it. The country of the extracted organization record is never
  absent and never empty, in the transformer and in the parser alike. The locator looks at
  the first \<open>CountryCd\<close> child of a \<open>ForeignAddress\<close> in document order, and at no other:
  the country is the stripped text of that element when the text is not blank, and the
  string US otherwise, that is when the document has no such element and when the first one
  has no text or only blanks, whatever a later one holds.
\<close>

theorem country_defaults_to_US:
  "(\<exists>c. dget (tr_extract_organization_info doc nss ein) ''country'' = PStr c \<and> c \<noteq> []) \<and>
   (\<exists>c. dget (parser_extract_organization_info nss doc) ''country'' = PStr c \<and> c \<noteq> []) \<and>
   dget (tr_extract_organization_info doc nss ein) ''country'' =
     PStr (case select_nodes nss [AnyLocal ''ForeignAddress'', AnyLocal ''CountryCd''] (doc_nodes doc) of
             [] \<Rightarrow> ''US''
           | n # ns \<Rightarrow> (case elem_text (node_elem n) of
                         None \<Rightarrow> ''US''
                       | Some t \<Rightarrow> if strip t = [] then ''US'' else strip t)) \<and>
   dget (tr_extract_organization_info doc nss ein) ''country'' =
     PStr (case get_text doc nss country_patterns of
             None \<Rightarrow> ''US'' | Some c \<Rightarrow> if c = [] then ''US'' else c) \<and>
   dget (parser_extract_organization_info nss doc) ''country'' =
     dget (tr_extract_organization_info doc nss ein) ''country'' \<and>
   (select_nodes nss [AnyLocal ''ForeignAddress'', AnyLocal ''CountryCd''] (doc_nodes doc) = [] \<longrightarrow>
      dget (tr_extract_organization_info doc nss ein) ''country'' = PStr ''US'') \<and>
   (select_nodes nss [AnyLocal ''ForeignAddress'', AnyLocal ''CountryCd''] (doc_nodes doc) = n # ns \<and>
    elem_text (node_elem n) = Some t \<and> strip t \<noteq> [] \<longrightarrow>
      dget (tr_extract_organization_info doc nss ein) ''country'' = PStr (strip t))"
proof (intro conjI impI)
  show "\<exists>c. dget (tr_extract_organization_info doc nss ein) ''country'' = PStr c \<and> c \<noteq> []"
    using extract_country_nonempty [of doc nss] by (auto simp: tr_country opt_str_def)
  show "\<exists>c. dget (parser_extract_organization_info nss doc) ''country'' = PStr c \<and> c \<noteq> []"
    using extract_country_nonempty [of doc nss] by (auto simp: parser_country opt_str_def)
  show "dget (tr_extract_organization_info doc nss ein) ''country'' =
     PStr (case select_nodes nss [AnyLocal ''ForeignAddress'', AnyLocal ''CountryCd''] (doc_nodes doc) of
             [] \<Rightarrow> ''US''
           | n # ns \<Rightarrow> (case elem_text (node_elem n) of
                         None \<Rightarrow> ''US''
                       | Some t \<Rightarrow> if strip t = [] then ''US'' else strip t))"
    by (simp add: tr_country extract_country_first opt_str_def)
  show "dget (tr_extract_organization_info doc nss ein) ''country'' =
     PStr (case get_text doc nss country_patterns of
             None \<Rightarrow> ''US'' | Some c \<Rightarrow> if c = [] then ''US'' else c)"
    by (simp add: tr_country extract_country_cases opt_str_def)
  show "dget (parser_extract_organization_info nss doc) ''country'' =
     dget (tr_extract_organization_info doc nss ein) ''country''"
    by (simp add: tr_country parser_country)
next
  assume "select_nodes nss [AnyLocal ''ForeignAddress'', AnyLocal ''CountryCd''] (doc_nodes doc) = []"
  then show "dget (tr_extract_organization_info doc nss ein) ''country'' = PStr ''US''"
    by (simp add: tr_country extract_country_cases opt_str_def get_text_country_empty)
next
  assume a: "select_nodes nss [AnyLocal ''ForeignAddress'', AnyLocal ''CountryCd''] (doc_nodes doc) = n # ns \<and>
    elem_text (node_elem n) = Some t \<and> strip t \<noteq> []"
  then have "t \<noteq> []" by (auto simp: strip_def)
  with a have "get_text doc nss country_patterns = Some (strip t)"
    by (simp add: get_text_country_first)
  with a show "dget (tr_extract_organization_info doc nss ein) ''country'' = PStr (strip t)"
    by (simp add: tr_country extract_country_cases opt_str_def)
qed

theorem country_defaults_to_US_witness:
  "elem_text (node_elem (hd (select_nodes [] [AnyLocal ''ForeignAddress'', AnyLocal ''CountryCd'']
      (doc_nodes foreign_doc)))) = Some '' CA '' \<and>
   dget (tr_extract_organization_info foreign_doc [] ''123456789'') ''country'' = PStr ''CA'' \<and>
   dget (parser_extract_organization_info [] foreign_doc) ''country'' = PStr ''CA'' \<and>
   select_nodes [] [AnyLocal ''ForeignAddress'', AnyLocal ''CountryCd''] (doc_nodes example_doc) = [] \<and>
   dget (tr_extract_organization_info example_doc [] ''123456789'') ''country'' = PStr ''US'' \<and>
   dget (parser_extract_organization_info [] example_doc) ''country'' = PStr ''US''"
proof -
  let ?n = "hd (select_nodes [] [AnyLocal ''ForeignAddress'', AnyLocal ''CountryCd'']
      (doc_nodes foreign_doc))"
  have sel: "select_nodes [] [AnyLocal ''ForeignAddress'', AnyLocal ''CountryCd'']
      (doc_nodes foreign_doc) = ?n # []"
    by (simp add: foreign_doc_eval)
  have ct: "elem_text (node_elem ?n) = Some '' CA ''"
    by (simp add: foreign_doc_eval node_elem_def)
  have ne: "strip '' CA '' \<noteq> []"
    by (simp add: strip_example)
  note f = country_defaults_to_US [where doc = foreign_doc and nss = "[]"
      and ein = "''123456789''" and n = ?n and ns = "[]" and t = "'' CA ''"]
  from f sel ct ne have a: "dget (tr_extract_organization_info foreign_doc [] ''123456789'') ''country'' =
      PStr (strip '' CA '')"
    by blast
  from f have b: "dget (parser_extract_organization_info [] foreign_doc) ''country'' =
      dget (tr_extract_organization_info foreign_doc [] ''123456789'') ''country''"
    by blast
  have none: "select_nodes [] [AnyLocal ''ForeignAddress'', AnyLocal ''CountryCd'']
      (doc_nodes example_doc) = []"
    by (simp add: example_doc_def select_nodes_def doc_nodes_def node_elem_def node_anc_def)
  note t = country_defaults_to_US [of example_doc "[]" "''123456789''"]
  from t none have c: "dget (tr_extract_organization_info example_doc [] ''123456789'') ''country'' =
      PStr ''US''"
    by blast
  from t have d: "dget (parser_extract_organization_info [] example_doc) ''country'' =
      dget (tr_extract_organization_info example_doc [] ''123456789'') ''country''"
    by blast
  from a b have "dget (tr_extract_organization_info foreign_doc [] ''123456789'') ''country'' = PStr ''CA'' \<and>
      dget (parser_extract_organization_info [] foreign_doc) ''country'' = PStr ''CA''"
    by (simp add: strip_example)
  with ct none c d show ?thesis by simp
qed

text \<open>
  The claim as the spec states it fails when the first \<open>CountryCd\<close> under a
  \<open>ForeignAddress\<close> has no text and a later one has: the document holds the foreign
  country code CA, and the country of the organization record is US.
\<close>

theorem country_first_match_counterexample:
  "map (\<lambda>n. elem_text (node_elem n))
     (select_nodes [] [AnyLocal ''ForeignAddress'', AnyLocal ''CountryCd''] (doc_nodes two_codes_doc)) =
     [None, Some ''CA''] \<and>
   dget (tr_extract_organization_info two_codes_doc (tr_namespaces two_codes_doc) ''123456789'')
     ''country'' = PStr ''US'' \<and>
   dget (parser_extract_organization_info (tr_namespaces two_codes_doc) two_codes_doc)
     ''country'' = PStr ''US''"
  by (simp add: two_codes_doc_def tr_namespaces_def tr_extract_organization_info_def
      parser_extract_organization_info_def org_fields_def extract_country_def
      country_patterns_def child_pat_def dget_def opt_str_def prefixes_bound_def
      select_nodes_def doc_nodes_def node_elem_def node_anc_def root_node_def truthy_def)

section \<open>Properties of the loader\<close>

lemma load_organization_existing:
  assumes "load_organization st org = Inr st'" and "i < length (organizations st)"
    and "o_ein (organizations st ! i) = dget org ''ein''"
  shows "organizations st' =
     map (\<lambda>r. if o_ein r = dget org ''ein'' then
            r\<lparr>o_name := coalesce (dget org ''name'') (o_name r),
              o_address_line1 := coalesce (dget org ''address_line1'') (o_address_line1 r),
              o_address_line2 := coalesce (dget org ''address_line2'') (o_address_line2 r),
              o_city := coalesce (dget org ''city'') (o_city r),
              o_state := coalesce (dget org ''state'') (o_state r),
              o_zip := coalesce (dget org ''zip'') (o_zip r),
              o_country := coalesce (dget org ''country'') (o_country r),
              o_website := coalesce (dget org ''website'') (o_website r)\<rparr>
          else r) (organizations st)"
proof -
  from assms(2,3) have "\<exists>r \<in> set (organizations st). o_ein r = dget org ''ein''"
    using nth_mem by blast
  with assms(1) show ?thesis
    by (auto simp: load_organization_def Let_def split: if_splits)
qed

lemma load_filing_record_existing:
  assumes "load_filing_record st md = Inr st'" and "i < length (filings st)"
    and "f_filing_id (filings st ! i) = dget md ''filing_id''"
  shows "filings st' =
     map (\<lambda>r. if f_filing_id r = dget md ''filing_id'' then
            r\<lparr>f_object_id := dget md ''object_id'',
              f_form_version := dget md ''form_version'',
              f_tax_year := dget md ''tax_year''\<rparr>
          else r) (filings st)"
proof -
  from assms(2,3) have "\<exists>r \<in> set (filings st). f_filing_id r = dget md ''filing_id''"
    using nth_mem by blast
  with assms(1) show ?thesis
    by (auto simp: load_filing_record_def Let_def split: if_splits)
qed

lemma coalesce_None: "coalesce PNone old = old"
  by (simp add: coalesce_def)

lemma load_organization_merges:
  assumes "load_organization st org = Inr st'" and "i < length (organizations st)"
    and "o_ein (organizations st ! i) = dget org ''ein''"
  shows "length (organizations st') = length (organizations st) \<and>
      o_ein (organizations st' ! i) = o_ein (organizations st ! i) \<and>
      o_name (organizations st' ! i) = coalesce (dget org ''name'') (o_name (organizations st ! i)) \<and>
      o_address_line1 (organizations st' ! i) =
        coalesce (dget org ''address_line1'') (o_address_line1 (organizations st ! i)) \<and>
      o_address_line2 (organizations st' ! i) =
        coalesce (dget org ''address_line2'') (o_address_line2 (organizations st ! i)) \<and>
      o_city (organizations st' ! i) = coalesce (dget org ''city'') (o_city (organizations st ! i)) \<and>
      o_state (organizations st' ! i) = coalesce (dget org ''state'') (o_state (organizations st ! i)) \<and>
      o_zip (organizations st' ! i) = coalesce (dget org ''zip'') (o_zip (organizations st ! i)) \<and>
      o_country (organizations st' ! i) =
        coalesce (dget org ''country'') (o_country (organizations st ! i)) \<and>
      o_website (organizations st' ! i) =
        coalesce (dget org ''website'') (o_website (organizations st ! i))"
  using assms(2,3) by (simp add: load_organization_existing [OF assms])

lemma load_filing_record_overwrites:
  assumes "load_filing_record st md = Inr st'" and "j < length (filings st)"
    and "f_filing_id (filings st ! j) = dget md ''filing_id''"
  shows "length (filings st') = length (filings st) \<and>
      f_object_id (filings st' ! j) = dget md ''object_id'' \<and>
      f_form_version (filings st' ! j) = dget md ''form_version'' \<and>
      f_tax_year (filings st' ! j) = dget md ''tax_year'' \<and>
      f_filing_id (filings st' ! j) = f_filing_id (filings st ! j) \<and>
      f_ein (filings st' ! j) = f_ein (filings st ! j) \<and>
      f_tax_period (filings st' ! j) = f_tax_period (filings st ! j) \<and>
      f_form_type (filings st' ! j) = f_form_type (filings st ! j) \<and>
      f_submission_date (filings st' ! j) = f_submission_date (filings st ! j)"
  using assms(2,3) by (simp add: load_filing_record_existing [OF assms])

lemma store_2020_update:
  "load_filing_record store_2020 metadata_no_year = Inr store_2020_after"
  by (simp add: load_filing_record_def store_2020_def metadata_no_year_def store_2020_after_def
      dget_def Let_def)

lemma store_2020_org_update:
  "load_organization store_2020 organization_no_name = Inr store_2020_org_after"
  by (simp add: load_organization_def store_2020_def organization_no_name_def
      store_2020_org_after_def dget_def coalesce_def Let_def)

lemma tr_tax_year_example: "tr_tax_year ''12/31/2020'' = None \<and> tr_tax_year ''2020-12-31'' = Some 2020"
  by (simp add: tr_tax_year_def py_int_def strip_def is_space_def is_digit_def dec_nat_def
      digit_val_def)

text \<open>
  C9. The Organization update merges: an attribute that is \<open>None\<close> in the incoming
  data leaves the stored column as it was (\<open>COALESCE\<close>), so that organization data
  without a name leave the stored name Test Charity in place and replace the city. The
  Filing update does not: it writes the incoming \<open>object_id\<close>, \<open>form_version\<close> and
  \<open>tax_year\<close> whatever they are. On a store whose Filing row has the tax year 2020,
  loading metadata for the same filing with no tax year (what the transformer sends for a
  tax period such as 12/31/2020, whose part before the first hyphen is not a number)
  replaces the stored 2020 by \<open>NULL\<close>, against the claim.
\<close>

theorem filing_update_overwrites_stored_year:
  "dget organization_no_name ''name'' = PNone \<and>
   map o_name (organizations store_2020) = [PStr ''Test Charity''] \<and>
   map o_city (organizations store_2020) = [PStr ''Anytown''] \<and>
   load_organization store_2020 organization_no_name = Inr store_2020_org_after \<and>
   map o_name (organizations store_2020_org_after) = [PStr ''Test Charity''] \<and>
   map o_city (organizations store_2020_org_after) = [PStr ''Newtown''] \<and>
   tr_tax_year ''12/31/2020'' = None \<and>
   dget metadata_no_year ''tax_year'' = PNone \<and>
   map f_tax_year (filings store_2020) = [PInt 2020] \<and>
   load_filing_record store_2020 metadata_no_year = Inr store_2020_after \<and>
   map f_tax_year (filings store_2020_after) = [PNone]"
  using store_2020_update store_2020_org_update tr_tax_year_example
  by (simp add: store_2020_def metadata_no_year_def store_2020_after_def
      organization_no_name_def store_2020_org_after_def dget_def)

subsection \<open>Keys stay unique\<close>










subsection \<open>Batches, pages and upserts\<close>



lemma chunks_Nil: "chunks n [] = []"
  by (simp add: chunks.simps)

lemma chunks_one:
  assumes "xs \<noteq> []" and "length xs \<le> n"
  shows "chunks n xs = [xs]"
proof -
  from assms have "0 < n" by (cases xs) auto
  with assms show ?thesis
    by (subst chunks.simps) (simp add: chunks_Nil)
qed















subsection \<open>The group ids of two loads\<close>








subsection \<open>One load, then a second one\<close>






















end
